theory Spec2Isabelle
  imports Main "HOL-Library.Word" "HOL-Library.Sublist"
begin

text \<open>
  A model of the server routes and client helpers of the chat application: the input
  sanitizer, the store of system prompts with its routes, the retrieval route and the
  ingestion route around the chat-history script, and the answering route in front of
  the language model. Functions keep the names they have in the source; what a route
  takes from its surroundings (the file system, the clock, child processes, the language
  model, \<open>JSON.parse\<close>) is an explicit argument.
\<close>

section \<open>JavaScript strings and values\<close>

text \<open>
  A JavaScript string is a sequence of UTF-16 code units; \<open>length\<close>, \<open>substring\<close>,
  \<open>trim\<close> and the regular expressions of the source all work on code units.
\<close>

type_synonym jschar = "16 word"
type_synonym jsstring = "jschar list"

text \<open>An ASCII literal of the source, as code units.\<close>

definition js :: "string \<Rightarrow> jsstring" where
  "js s = map (\<lambda>c. of_nat (of_char c)) s"

text \<open>
  The values a caller can pass where TypeScript says \<open>string\<close> (the tests of the source
  pass \<open>null\<close>, \<open>undefined\<close>, \<open>123\<close> and \<open>{}\<close> through \<open>as any\<close>). A number is
  kept as an integer: the code only asks whether it is falsy and what its type is.
\<close>

datatype js_value = JUndefined | JNull | JBool bool | JNum int | JStr jsstring | JObj

fun falsy :: "js_value \<Rightarrow> bool" where
  "falsy JUndefined = True"
| "falsy JNull = True"
| "falsy (JBool b) = (\<not> b)"
| "falsy (JNum n) = (n = 0)"
| "falsy (JStr s) = (s = [])"
| "falsy JObj = False"

fun is_string :: "js_value \<Rightarrow> bool" where
  "is_string (JStr s) = True"
| "is_string v = False"

fun the_string :: "js_value \<Rightarrow> jsstring" where
  "the_string (JStr s) = s"
| "the_string v = []"

text \<open>
  \<open>String.prototype.trim\<close> removes WhiteSpace and LineTerminator code units at both ends:
  TAB, LF, VT, FF, CR, SP, NBSP, U+1680, U+2000..U+200A, LS, PS, U+202F, U+205F, U+3000
  and U+FEFF.
\<close>

definition is_js_whitespace :: "jschar \<Rightarrow> bool" where
  "is_js_whitespace c \<longleftrightarrow>
     c = 0x09 \<or> c = 0x0A \<or> c = 0x0B \<or> c = 0x0C \<or> c = 0x0D \<or> c = 0x20 \<or> c = 0xA0 \<or>
     c = 0x1680 \<or> (0x2000 \<le> c \<and> c \<le> 0x200A) \<or> c = 0x2028 \<or> c = 0x2029 \<or>
     c = 0x202F \<or> c = 0x205F \<or> c = 0x3000 \<or> c = 0xFEFF"

definition trim :: "jsstring \<Rightarrow> jsstring" where
  "trim s = rev (dropWhile is_js_whitespace (rev (dropWhile is_js_whitespace s)))"

fun starts_with_whitespace :: "jsstring \<Rightarrow> bool" where
  "starts_with_whitespace [] = False"
| "starts_with_whitespace (c # cs) = is_js_whitespace c"

definition ends_with_whitespace :: "jsstring \<Rightarrow> bool" where
  "ends_with_whitespace s = starts_with_whitespace (rev s)"

section \<open>utils/sanitization.ts\<close>

text \<open>\<open>.replace(/\0/g, '')\<close>\<close>

definition remove_null_bytes :: "jsstring \<Rightarrow> jsstring" where
  "remove_null_bytes s = filter (\<lambda>c. c \<noteq> 0) s"

text \<open>\<open>.replace(/[\x01-\x08\x0B\x0C\x0E-\x1F\x7F-\x9F]/g, '')\<close>\<close>

definition is_control_char :: "jschar \<Rightarrow> bool" where
  "is_control_char c \<longleftrightarrow>
     (0x01 \<le> c \<and> c \<le> 0x08) \<or> c = 0x0B \<or> c = 0x0C \<or> (0x0E \<le> c \<and> c \<le> 0x1F) \<or>
     (0x7F \<le> c \<and> c \<le> 0x9F)"

definition remove_control_chars :: "jsstring \<Rightarrow> jsstring" where
  "remove_control_chars s = filter (\<lambda>c. \<not> is_control_char c) s"

text \<open>
  \<open>.replace(/<[^>]*>/g, '')\<close>: scanning from the left, a \<open><\<close> that has a \<open>>\<close> somewhere
  after it matches up to the first such \<open>>\<close> (the class \<open>[^>]\<close> cannot step over one) and
  the match is deleted; scanning goes on behind the match. A \<open><\<close> with no \<open>>\<close> after it
  stays.
\<close>

abbreviation LT :: jschar where "LT \<equiv> 0x3C"
abbreviation GT :: jschar where "GT \<equiv> 0x3E"

function strip_tags :: "jsstring \<Rightarrow> jsstring" where
  "strip_tags [] = []"
| "strip_tags (c # cs) =
     (if c = LT \<and> GT \<in> set cs
      then strip_tags (tl (dropWhile (\<lambda>x. x \<noteq> GT) cs))
      else c # strip_tags cs)"
  by pat_completeness auto
termination
proof (relation "measure length")
  show "wf (measure length)" by simp
next
  fix c :: jschar and cs :: jsstring
  assume "c = LT \<and> GT \<in> set cs"
  have "length (tl (dropWhile (\<lambda>x. x \<noteq> GT) cs)) \<le> length (dropWhile (\<lambda>x. x \<noteq> GT) cs)"
    by simp
  also have "\<dots> \<le> length cs" by (rule length_dropWhile_le)
  finally show "(tl (dropWhile (\<lambda>x. x \<noteq> GT) cs), c # cs) \<in> measure length" by simp
next
  fix c :: jschar and cs :: jsstring
  show "(cs, c # cs) \<in> measure length" by simp
qed

text \<open>The chain of replacements and the final \<open>trim\<close> that a non-empty string goes through.\<close>

definition sanitize_chain :: "jsstring \<Rightarrow> jsstring" where
  "sanitize_chain s = trim (strip_tags (remove_control_chars (remove_null_bytes s)))"

text \<open>\<open>if (!input || typeof input !== 'string') return ''\<close>, then the chain.\<close>

definition sanitizeUserInput :: "js_value \<Rightarrow> jsstring" where
  "sanitizeUserInput input =
     (if falsy input \<or> \<not> is_string input then [] else sanitize_chain (the_string input))"

text \<open>
  A string in which no \<open><\<close> has a \<open>>\<close> behind it: the tag pattern matches nowhere.
\<close>

fun tagfree :: "jsstring \<Rightarrow> bool" where
  "tagfree [] = True"
| "tagfree (c # cs) = ((c = LT \<longrightarrow> GT \<notin> set cs) \<and> tagfree cs)"

section \<open>Responses\<close>

text \<open>
  The JSON bodies the routes build with \<open>NextResponse.json\<close>: an object is the list of
  its keys with their values, in the order the source writes them.
\<close>

datatype json =
    JsonNull
  | JsonBool bool
  | JsonNum int
  | JsonStr jsstring
  | JsonArr "json list"
  | JsonObj "(string \<times> json) list"

record response =
  status :: nat
  body :: json

definition json_response :: "nat \<Rightarrow> (string \<times> json) list \<Rightarrow> response" where
  "json_response code kvs = \<lparr>status = code, body = JsonObj kvs\<rparr>"

text \<open>The keys of a JSON object body (none for any other body).\<close>

fun json_keys :: "json \<Rightarrow> string list" where
  "json_keys (JsonObj kvs) = map fst kvs"
| "json_keys j = []"

text \<open>\<open>Number.prototype.toString()\<close> on a non-negative integer, and on any integer.\<close>

function dec_nat :: "nat \<Rightarrow> jsstring" where
  "dec_nat n = (if n < 10 then [of_nat (48 + n)] else dec_nat (n div 10) @ [of_nat (48 + n mod 10)])"
  by pat_completeness auto
termination
  by (relation "measure (\<lambda>n. n)") auto

declare dec_nat.simps [simp del]

definition dec_int :: "int \<Rightarrow> jsstring" where
  "dec_int i = (if i < 0 then 0x2D # dec_nat (nat (- i)) else dec_nat (nat i))"

section \<open>lib/prompts-data: the stored system prompts\<close>

record system_prompt =
  prompt_id :: jsstring
  prompt_name :: jsstring
  prompt_content :: jsstring
  prompt_createdAt :: jsstring
  prompt_updatedAt :: jsstring

text \<open>
  The file \<open>data/system-prompts.json\<close>: absent, present but not readable as a list of
  prompts (\<open>readFileSync\<close> or \<open>JSON.parse\<close> throws), or holding a list of prompts.
\<close>

datatype prompt_file = Missing | Unreadable | Stored "system_prompt list"

text \<open>
  What one request sees of its environment: the clock (\<open>new Date().toISOString()\<close> and
  \<open>Date.now()\<close>), the digits \<open>Math.random().toString(36).substr(2, 9)\<close> yields, and
  whether creating the directory and writing the file succeed during this request.
\<close>

record fs_env =
  now_iso :: jsstring
  now_ms :: nat
  random_suffix :: jsstring
  write_ok :: bool

datatype fs_error = WriteFailed

definition default_content :: jsstring where
  "default_content =
     js ''# Default System Prompt'' @ [0x0A, 0x0A] @
     js ''This is a default system prompt. You can create and manage multiple system prompts from the UI.'' @
     [0x0A, 0x0A] @ js ''## Usage'' @ [0x0A] @
     js ''- Create new prompts for different use cases'' @ [0x0A] @
     js ''- Switch between prompts in conversations'' @ [0x0A] @
     js ''- Edit and delete prompts as needed'' @ [0x0A]"

definition defaultPrompt :: "fs_env \<Rightarrow> system_prompt" where
  "defaultPrompt env =
     \<lparr>prompt_id = js ''default'', prompt_name = js ''Default System Prompt'',
      prompt_content = default_content,
      prompt_createdAt = now_iso env, prompt_updatedAt = now_iso env\<rparr>"

text \<open>
  \<open>readPrompts\<close>: an absent file is created with the default prompt; every exception
  (a failed write of that file, an unreadable file) is caught and gives the empty list.
  The second component is the file afterwards.
\<close>

definition readPrompts :: "fs_env \<Rightarrow> prompt_file \<Rightarrow> system_prompt list \<times> prompt_file" where
  "readPrompts env file =
     (case file of
        Missing \<Rightarrow>
          if write_ok env then ([defaultPrompt env], Stored [defaultPrompt env])
          else ([], Missing)
      | Unreadable \<Rightarrow> ([], Unreadable)
      | Stored prompts \<Rightarrow> (prompts, Stored prompts))"

text \<open>\<open>writePrompts\<close> rethrows a failed write; the file then stays as it was.\<close>

definition writePrompts :: "fs_env \<Rightarrow> system_prompt list \<Rightarrow> prompt_file \<Rightarrow> fs_error + prompt_file" where
  "writePrompts env prompts file = (if write_ok env then Inr (Stored prompts) else Inl WriteFailed)"

definition getPromptById :: "fs_env \<Rightarrow> jsstring \<Rightarrow> prompt_file \<Rightarrow> system_prompt option \<times> prompt_file" where
  "getPromptById env pid file =
     (let (prompts, file1) = readPrompts env file
      in (find (\<lambda>p. prompt_id p = pid) prompts, file1))"

definition createPrompt ::
  "fs_env \<Rightarrow> jsstring \<Rightarrow> jsstring \<Rightarrow> prompt_file \<Rightarrow> (fs_error + system_prompt) \<times> prompt_file" where
  "createPrompt env name content file =
     (let (prompts, file1) = readPrompts env file;
          newPrompt = \<lparr>prompt_id = dec_nat (now_ms env) @ random_suffix env,
                       prompt_name = name, prompt_content = content,
                       prompt_createdAt = now_iso env, prompt_updatedAt = now_iso env\<rparr>
      in case writePrompts env (prompts @ [newPrompt]) file1 of
           Inl e \<Rightarrow> (Inl e, file1)
         | Inr file2 \<Rightarrow> (Inr newPrompt, file2))"

fun findIndex :: "('a \<Rightarrow> bool) \<Rightarrow> 'a list \<Rightarrow> nat option" where
  "findIndex P [] = None"
| "findIndex P (x # xs) = (if P x then Some 0 else map_option Suc (findIndex P xs))"

definition updatePrompt ::
  "fs_env \<Rightarrow> jsstring \<Rightarrow> jsstring \<Rightarrow> jsstring \<Rightarrow> prompt_file
     \<Rightarrow> (fs_error + system_prompt option) \<times> prompt_file" where
  "updatePrompt env pid name content file =
     (let (prompts, file1) = readPrompts env file
      in case findIndex (\<lambda>p. prompt_id p = pid) prompts of
           None \<Rightarrow> (Inr None, file1)
         | Some index \<Rightarrow>
             let updated = (prompts ! index)\<lparr>prompt_name := name, prompt_content := content,
                                            prompt_updatedAt := now_iso env\<rparr>;
                 prompts1 = prompts[index := updated]
             in case writePrompts env prompts1 file1 of
                  Inl e \<Rightarrow> (Inl e, file1)
                | Inr file2 \<Rightarrow> (Inr (Some updated), file2))"

definition deletePrompt ::
  "fs_env \<Rightarrow> jsstring \<Rightarrow> prompt_file \<Rightarrow> (fs_error + bool) \<times> prompt_file" where
  "deletePrompt env pid file =
     (let (prompts, file1) = readPrompts env file;
          filteredPrompts = filter (\<lambda>p. prompt_id p \<noteq> pid) prompts
      in if length filteredPrompts = length prompts then (Inr False, file1)
         else case writePrompts env filteredPrompts file1 of
                Inl e \<Rightarrow> (Inl e, file1)
              | Inr file2 \<Rightarrow> (Inr True, file2))"

section \<open>api/system-prompts: the routes\<close>

definition prompt_json :: "system_prompt \<Rightarrow> json" where
  "prompt_json p =
     JsonObj [(''id'', JsonStr (prompt_id p)), (''name'', JsonStr (prompt_name p)),
              (''content'', JsonStr (prompt_content p)),
              (''createdAt'', JsonStr (prompt_createdAt p)),
              (''updatedAt'', JsonStr (prompt_updatedAt p))]"

text \<open>
  The body of a POST or PUT after \<open>await request.json()\<close>; a request whose body does
  not parse is \<open>None\<close> (the \<open>await\<close> throws into the route's \<open>catch\<close>).
\<close>

record prompt_body =
  body_name :: js_value
  body_content :: js_value

definition GET_prompts :: "fs_env \<Rightarrow> prompt_file \<Rightarrow> response \<times> prompt_file" where
  "GET_prompts env file =
     (let (prompts, file1) = readPrompts env file
      in (json_response 200 [(''prompts'', JsonArr (map prompt_json prompts))], file1))"

definition POST_prompts :: "fs_env \<Rightarrow> prompt_body option \<Rightarrow> prompt_file \<Rightarrow> response \<times> prompt_file" where
  "POST_prompts env request file =
     (case request of
        None \<Rightarrow> (json_response 500 [(''error'', JsonStr (js ''Failed to create system prompt''))], file)
      | Some b \<Rightarrow>
          if falsy (body_name b) \<or> \<not> is_string (body_name b)
          then (json_response 400 [(''error'', JsonStr (js ''Name is required and must be a string''))], file)
          else if falsy (body_content b) \<or> \<not> is_string (body_content b)
          then (json_response 400 [(''error'', JsonStr (js ''Content is required and must be a string''))], file)
          else case createPrompt env (the_string (body_name b)) (the_string (body_content b)) file of
                 (Inl e, file1) \<Rightarrow>
                   (json_response 500 [(''error'', JsonStr (js ''Failed to create system prompt''))], file1)
               | (Inr newPrompt, file1) \<Rightarrow>
                   (json_response 201 [(''prompt'', prompt_json newPrompt)], file1))"

definition GET_prompt :: "fs_env \<Rightarrow> jsstring \<Rightarrow> prompt_file \<Rightarrow> response \<times> prompt_file" where
  "GET_prompt env pid file =
     (case getPromptById env pid file of
        (None, file1) \<Rightarrow> (json_response 404 [(''error'', JsonStr (js ''System prompt not found''))], file1)
      | (Some p, file1) \<Rightarrow> (json_response 200 [(''prompt'', prompt_json p)], file1))"

definition PUT_prompt ::
  "fs_env \<Rightarrow> jsstring \<Rightarrow> prompt_body option \<Rightarrow> prompt_file \<Rightarrow> response \<times> prompt_file" where
  "PUT_prompt env pid request file =
     (case request of
        None \<Rightarrow> (json_response 500 [(''error'', JsonStr (js ''Failed to update system prompt''))], file)
      | Some b \<Rightarrow>
          if falsy (body_name b) \<or> \<not> is_string (body_name b)
          then (json_response 400 [(''error'', JsonStr (js ''Name is required and must be a string''))], file)
          else if falsy (body_content b) \<or> \<not> is_string (body_content b)
          then (json_response 400 [(''error'', JsonStr (js ''Content is required and must be a string''))], file)
          else case updatePrompt env pid (the_string (body_name b)) (the_string (body_content b)) file of
                 (Inl e, file1) \<Rightarrow>
                   (json_response 500 [(''error'', JsonStr (js ''Failed to update system prompt''))], file1)
               | (Inr None, file1) \<Rightarrow>
                   (json_response 404 [(''error'', JsonStr (js ''System prompt not found''))], file1)
               | (Inr (Some updatedPrompt), file1) \<Rightarrow>
                   (json_response 200 [(''prompt'', prompt_json updatedPrompt)], file1))"

definition DELETE_prompt :: "fs_env \<Rightarrow> jsstring \<Rightarrow> prompt_file \<Rightarrow> response \<times> prompt_file" where
  "DELETE_prompt env pid file =
     (if pid = js ''default''
      then (json_response 400 [(''error'', JsonStr (js ''Cannot delete the default system prompt''))], file)
      else case deletePrompt env pid file of
             (Inl e, file1) \<Rightarrow>
               (json_response 500 [(''error'', JsonStr (js ''Failed to delete system prompt''))], file1)
           | (Inr False, file1) \<Rightarrow>
               (json_response 404 [(''error'', JsonStr (js ''System prompt not found''))], file1)
           | (Inr True, file1) \<Rightarrow> (json_response 200 [(''success'', JsonBool True)], file1))"

text \<open>The requests of the public interface, and a sequence of them, each in its own environment.\<close>

datatype prompt_request =
    ListPrompts
  | CreatePrompt "prompt_body option"
  | ReadPrompt jsstring
  | UpdatePrompt jsstring "prompt_body option"
  | DeletePrompt jsstring

fun serve :: "fs_env \<Rightarrow> prompt_request \<Rightarrow> prompt_file \<Rightarrow> response \<times> prompt_file" where
  "serve env ListPrompts file = GET_prompts env file"
| "serve env (CreatePrompt b) file = POST_prompts env b file"
| "serve env (ReadPrompt pid) file = GET_prompt env pid file"
| "serve env (UpdatePrompt pid b) file = PUT_prompt env pid b file"
| "serve env (DeletePrompt pid) file = DELETE_prompt env pid file"

fun serve_all :: "(fs_env \<times> prompt_request) list \<Rightarrow> prompt_file \<Rightarrow> prompt_file" where
  "serve_all [] file = file"
| "serve_all ((env, r) # rs) file = serve_all rs (snd (serve env r file))"

text \<open>
  The file is in order when it is absent (the next read creates the default prompt) or
  holds a list with a prompt of id \<open>default\<close>.
\<close>

fun default_kept :: "prompt_file \<Rightarrow> bool" where
  "default_kept Missing = True"
| "default_kept Unreadable = False"
| "default_kept (Stored prompts) = (js ''default'' \<in> set (map prompt_id prompts))"

section \<open>Child processes\<close>

text \<open>
  How a run of \<open>python3 scripts/chat_history_manager.py\<close> ends, as seen by the code
  that spawned it: \<open>spawn\<close> itself throws, or the \<open>error\<close> event comes first (with
  \<open>error.message\<close>), or the \<open>close\<close> event comes first (with the exit code, \<open>null\<close>
  when a signal ended the process, and what was collected from stdout and stderr).
  \<open>elapsed_ms\<close> is the time from the spawn to that event.
\<close>

datatype proc_end =
    SpawnThrows jsstring
  | ErrorEvent jsstring
  | Closed "int option" jsstring jsstring

record proc_run =
  elapsed_ms :: nat
  ending :: proc_end

text \<open>A value used as a condition: \<open>undefined\<close> and the empty string are falsy.\<close>

fun truthy_str :: "jsstring option \<Rightarrow> bool" where
  "truthy_str None = False"
| "truthy_str (Some s) = (s \<noteq> [])"

text \<open>\<open>`Python script failed with code ${code}. stdout: ${stdout}`\<close>\<close>

definition failed_with_code :: "int option \<Rightarrow> jsstring \<Rightarrow> jsstring" where
  "failed_with_code code out =
     js ''Python script failed with code '' @
     (case code of None \<Rightarrow> js ''null'' | Some c \<Rightarrow> dec_int c) @
     js ''. stdout: '' @ out"

section \<open>Search results and their formatting\<close>

text \<open>
  One element of the array the search script prints. The type \<open>'n\<close> stands for
  JavaScript numbers, which the model does not compute with.
\<close>

record 'n search_result =
  session_id :: jsstring
  session_title :: jsstring
  message_index :: int
  role :: jsstring
  content :: jsstring
  relevance_score :: 'n
  conversation_created :: jsstring

text \<open>
  What the model takes from the JavaScript runtime: \<open>JSON.parse\<close> of the script's output
  followed by the reads of the loop (\<open>Inl\<close> carries \<open>String(parseError)\<close> when parsing
  or a read throws), and \<open>(x * 100).toFixed(1)\<close>.
\<close>

record 'n runtime =
  parse_results :: "jsstring \<Rightarrow> jsstring + 'n search_result list"
  percent :: "'n \<Rightarrow> jsstring"

definition content_budget :: nat where
  "content_budget = 400"

text \<open>
  The template literal \<open>formatted_context\<close>, the same text in the retrieval route and in
  the chat route: title, role, \<open>content.substring(0, 400)\<close> with \<open>...\<close> after it when
  \<open>content.length > 400\<close>, and the relevance.
\<close>

definition format_context :: "('n \<Rightarrow> jsstring) \<Rightarrow> 'n search_result \<Rightarrow> jsstring" where
  "format_context pct r =
     js ''From conversation '' @ [0x22] @ session_title r @ [0x22] @ js '':'' @ [0x0A, 0x0A] @
     js ''Role: '' @ role r @ [0x0A] @
     js ''Content: '' @ take content_budget (content r) @
       (if length (content r) > content_budget then js ''...'' else []) @ [0x0A, 0x0A] @
     js ''Relevance: '' @ pct (relevance_score r) @ js ''%''"

record 'n search_metadata =
  meta_session_id :: jsstring
  meta_session_title :: jsstring
  meta_message_index :: int
  meta_role :: jsstring
  meta_content_preview :: jsstring
  meta_relevance_score :: 'n
  meta_conversation_created :: jsstring

definition metadata_of :: "'n search_result \<Rightarrow> 'n search_metadata" where
  "metadata_of r =
     \<lparr>meta_session_id = session_id r, meta_session_title = session_title r,
      meta_message_index = message_index r, meta_role = role r,
      meta_content_preview = take 100 (content r) @ js ''...'',
      meta_relevance_score = relevance_score r,
      meta_conversation_created = conversation_created r\<rparr>"

section \<open>api/graph-rag: the retrieval route\<close>

record 'n script_result =
  result_context :: "jsstring list option"
  result_error :: "jsstring option"
  result_metadata :: "'n search_metadata list option"

definition script_error :: "jsstring \<Rightarrow> 'n script_result" where
  "script_error e = \<lparr>result_context = None, result_error = Some e, result_metadata = None\<rparr>"

definition search_timeout_ms :: nat where
  "search_timeout_ms = 30000"

text \<open>
  \<open>runPythonScript\<close> of the retrieval route. The promise is settled by whichever comes
  first: the timer of 30000 ms, the \<open>error\<close> event or the \<open>close\<close> event (an event at
  30000 ms or later comes after the timer); a \<open>spawn\<close> that throws rejects it
  (\<open>Inl\<close>).
\<close>

definition runPythonScript :: "'n runtime \<Rightarrow> proc_run \<Rightarrow> jsstring + 'n script_result" where
  "runPythonScript rt run =
     (case ending run of
        SpawnThrows e \<Rightarrow> Inl e
      | ErrorEvent msg \<Rightarrow>
          Inr (if search_timeout_ms \<le> elapsed_ms run
               then script_error (js ''Python script timed out after 30 seconds'')
               else script_error msg)
      | Closed code out err \<Rightarrow>
          Inr (if search_timeout_ms \<le> elapsed_ms run
               then script_error (js ''Python script timed out after 30 seconds'')
               else if code = Some 0 then
                 (case parse_results rt out of
                    Inl parseError \<Rightarrow>
                      script_error (js ''Failed to parse Python script output: '' @ parseError)
                  | Inr results \<Rightarrow>
                      \<lparr>result_context = Some (map (format_context (percent rt)) results),
                       result_error = None,
                       result_metadata = Some (map metadata_of results)\<rparr>)
               else script_error (if err \<noteq> [] then err else failed_with_code code out)))"

text \<open>
  The request body after \<open>await request.json()\<close> (\<open>None\<close> when that throws), and the run
  the search script makes for a query and a limit.
\<close>

record graph_rag_request =
  query :: js_value
  limit :: "int option"

text \<open>\<open>limit = 5\<close> in the destructuring of the body.\<close>

definition requested_limit :: "graph_rag_request \<Rightarrow> int" where
  "requested_limit req = (case limit req of None \<Rightarrow> 5 | Some l \<Rightarrow> l)"

definition POST_graph_rag ::
  "'n runtime \<Rightarrow> (jsstring \<Rightarrow> int \<Rightarrow> proc_run) \<Rightarrow> graph_rag_request option \<Rightarrow> response" where
  "POST_graph_rag rt search request =
     (case request of
        None \<Rightarrow> json_response 500 [(''error'', JsonStr (js ''Internal server error''))]
      | Some req \<Rightarrow>
          if falsy (query req) \<or> \<not> is_string (query req)
          then json_response 400 [(''error'', JsonStr (js ''Query is required and must be a string''))]
          else
            let q = the_string (query req);
                lim = requested_limit req
            in case runPythonScript rt (search q lim) of
                 Inl thrown \<Rightarrow> json_response 500 [(''error'', JsonStr (js ''Internal server error''))]
               | Inr result \<Rightarrow>
                   if truthy_str (result_error result)
                   then json_response 500 [(''error'', JsonStr (js ''Failed to retrieve chat context''))]
                   else json_response 200
                          ((case result_context result of
                              None \<Rightarrow> []
                            | Some ctx \<Rightarrow> [(''context'', JsonArr (map JsonStr ctx))]) @
                           [(''query'', JsonStr q), (''limit'', JsonNum lim)]))"

text \<open>
  The search fails, as the retrieval route sees it: \<open>spawn\<close> throws, or the timer
  comes first, or the \<open>error\<close> event comes with a message, or the process exits with
  a code other than 0, or its output does not parse.
\<close>

fun spawn_throws :: "proc_end \<Rightarrow> bool" where
  "spawn_throws (SpawnThrows e) = True"
| "spawn_throws (ErrorEvent msg) = False"
| "spawn_throws (Closed code out err) = False"

definition retrieval_fails :: "'n runtime \<Rightarrow> proc_run \<Rightarrow> bool" where
  "retrieval_fails rt run =
     (case ending run of
        SpawnThrows e \<Rightarrow> True
      | ErrorEvent msg \<Rightarrow> search_timeout_ms \<le> elapsed_ms run \<or> msg \<noteq> []
      | Closed code out err \<Rightarrow>
          search_timeout_ms \<le> elapsed_ms run \<or> code \<noteq> Some 0 \<or> isl (parse_results rt out))"

section \<open>The ingestion route (\<open>ingest-chat-history\<close>)\<close>

text \<open>
  A submitted session and its messages. A field that the checks of the route test for
  presence is an option: \<open>None\<close> is a missing (or \<open>null\<close>) field, and for \<open>messages\<close>
  also a value that is not an array.
\<close>

record chat_message =
  msg_role :: "jsstring option"
  msg_content :: "jsstring option"

record chat_session =
  cs_id :: "jsstring option"
  cs_title :: jsstring
  cs_messages :: "chat_message list option"
  cs_model :: jsstring
  cs_promptId :: jsstring
  cs_createdAt :: nat
  cs_updatedAt :: nat

text \<open>
  The filter on messages: \<open>message.role && message.content &&
  message.content.trim().length > 0\<close>.
\<close>

definition valid_message :: "chat_message \<Rightarrow> bool" where
  "valid_message m \<longleftrightarrow>
     truthy_str (msg_role m) \<and> truthy_str (msg_content m) \<and>
     (case msg_content m of None \<Rightarrow> False | Some c \<Rightarrow> length (trim c) > 0)"

text \<open>A message whose text is empty or consists of whitespace only.\<close>

definition blank_text :: "chat_message \<Rightarrow> bool" where
  "blank_text m = (case msg_content m of None \<Rightarrow> False | Some c \<Rightarrow> trim c = [])"

text \<open>
  The loop that builds \<open>validSessions\<close>: each \<open>continue\<close> of the source drops the session
  and goes on with the next one.
\<close>

fun validSessions :: "chat_session list \<Rightarrow> chat_session list" where
  "validSessions [] = []"
| "validSessions (s # rest) =
     (if \<not> truthy_str (cs_id s) then validSessions rest
      else case cs_messages s of
             None \<Rightarrow> validSessions rest
           | Some msgs \<Rightarrow>
               if length msgs = 0 then validSessions rest
               else let validMessages = filter valid_message msgs
                    in if length validMessages = 0 then validSessions rest
                       else s\<lparr>cs_messages := Some validMessages\<rparr> # validSessions rest)"

text \<open>
  What \<open>JSON.parse\<close> makes of the script's trimmed output, as far as the route looks at
  it: not JSON, the value \<open>null\<close>, or a value with its \<open>error\<close> property if it has one.
\<close>

datatype parsed_output = NotJson | JsonNullValue | JsonWithError "jsstring option"

text \<open>What the promise of the ingestion \<open>runPythonScript\<close> resolves to.\<close>

datatype ingest_result = ResultNull | Result "jsstring option"

definition ingest_timeout_ms :: nat where
  "ingest_timeout_ms = 60000"

definition runPythonScript_ingest ::
  "(jsstring \<Rightarrow> parsed_output) \<Rightarrow> proc_run \<Rightarrow> jsstring + ingest_result" where
  "runPythonScript_ingest parse run =
     (case ending run of
        SpawnThrows e \<Rightarrow> Inl e
      | ErrorEvent msg \<Rightarrow>
          Inr (if ingest_timeout_ms \<le> elapsed_ms run
               then Result (Some (js ''Python script timed out after 60 seconds''))
               else Result (Some msg))
      | Closed code out err \<Rightarrow>
          Inr (if ingest_timeout_ms \<le> elapsed_ms run
               then Result (Some (js ''Python script timed out after 60 seconds''))
               else if code = Some 0 then
                 (if trim out \<noteq> [] then
                    (case parse (trim out) of
                       NotJson \<Rightarrow> Result None
                     | JsonNullValue \<Rightarrow> ResultNull
                     | JsonWithError e \<Rightarrow> Result e)
                  else Result None)
               else Result (Some (if err \<noteq> [] then err else failed_with_code code out))))"

text \<open>
  The environment of one ingestion request: whether the script file exists, whether
  writing or removing the temporary file throws (with \<open>String(fsError)\<close>), how the
  script runs, and the parser above.
\<close>

record ingest_env =
  script_exists :: bool
  fs_failure :: "jsstring option"
  ingest_run :: proc_run
  parse_output :: "jsstring \<Rightarrow> parsed_output"

text \<open>
  The request body: \<open>Inl\<close> carries \<open>String(error)\<close> when \<open>request.json()\<close> throws;
  otherwise \<open>chatSessions\<close>, \<open>None\<close> when it is missing or not an array.
\<close>

definition POST_ingest :: "ingest_env \<Rightarrow> jsstring + chat_session list option \<Rightarrow> response" where
  "POST_ingest env request =
     (case request of
        Inl thrown \<Rightarrow>
          json_response 500 [(''error'', JsonStr (js ''Internal server error'')),
                             (''details'', JsonStr thrown)]
      | Inr None \<Rightarrow> json_response 400 [(''error'', JsonStr (js ''chatSessions array is required''))]
      | Inr (Some chatSessions) \<Rightarrow>
          let valid = validSessions chatSessions in
          if length valid = 0 then
            json_response 400
              [(''error'', JsonStr (js ''No valid chat history to ingest - please ensure chat sessions include their message arrays for proper persistence'')),
               (''details'', JsonStr (js ''All provided sessions contained empty or invalid message arrays'')),
               (''processed_count'', JsonNum 0),
               (''sessions_processed'', JsonNum (int (length chatSessions)))]
          else if \<not> script_exists env then
            json_response 500 [(''error'', JsonStr (js ''Chat history manager script not found''))]
          else
            (case fs_failure env of
               Some fsError \<Rightarrow>
                 json_response 500 [(''error'', JsonStr (js ''Failed to process chat sessions'')),
                                    (''details'', JsonStr fsError)]
             | None \<Rightarrow>
                 (case runPythonScript_ingest (parse_output env) (ingest_run env) of
                    Inl thrown \<Rightarrow>
                      json_response 500 [(''error'', JsonStr (js ''Failed to process chat sessions'')),
                                         (''details'', JsonStr thrown)]
                  | Inr ResultNull \<Rightarrow>
                      json_response 500 [(''error'', JsonStr (js ''Failed to process chat sessions'')),
                                         (''details'', JsonStr (js ''TypeError: Cannot read properties of null (reading '' @
                                            [0x27] @ js ''error'' @ [0x27] @ js '')''))]
                  | Inr (Result e) \<Rightarrow>
                      if truthy_str e then
                        json_response 500 [(''error'', JsonStr (js ''Failed to ingest chat history'')),
                                           (''details'', JsonStr (case e of None \<Rightarrow> [] | Some d \<Rightarrow> d))]
                      else
                        json_response 200
                          [(''success'', JsonBool True),
                           (''message'', JsonStr (js ''Chat history stored as JSON and embeddings generated successfully'')),
                           (''processed_count'', JsonNum (int (length valid))),
                           (''sessions_processed'', JsonNum (int (length chatSessions)))])))"

section \<open>api/chat: the answering route\<close>

record ChatMessage =
  cm_role :: jsstring
  cm_content :: jsstring

text \<open>
  The request body after \<open>await request.json()\<close>. \<open>req_messages\<close> is \<open>Some\<close> exactly when
  \<open>messages && Array.isArray(messages)\<close> holds.
\<close>

record chat_request =
  req_message :: "jsstring option"
  req_messages :: "ChatMessage list option"
  req_model :: "jsstring option"
  req_promptId :: "jsstring option"
  req_graphRAG :: "bool option"

record ollama_request =
  o_model :: jsstring
  o_messages :: "ChatMessage list"
  o_stream :: bool

text \<open>
  What the call \<open>fetch('http://localhost:11434/api/chat')\<close> does: the promise rejects,
  or a response arrives that is not \<open>ok\<close> (with its status text), or an \<open>ok\<close> response
  arrives whose body is read chunk by chunk until it is done or a read fails.
\<close>

datatype stream_end = StreamDone | StreamFailed

datatype ollama_outcome =
    FetchRejected
  | HttpNotOk jsstring
  | HttpOk "jsstring list" stream_end

text \<open>
  The response of the route: a plain text with a status, or (status 200) the stream into
  which \<open>pump\<close> enqueues every chunk it reads, closed when the reading is done and
  errored when a read fails.
\<close>

datatype chat_body = Text jsstring | Streamed "jsstring list" stream_end

record chat_response =
  chat_status :: nat
  chat_body :: chat_body

record 'n chat_env =
  chat_fs :: fs_env
  chat_runtime :: "'n runtime"
  search_run :: "jsstring \<Rightarrow> proc_run"
  ollama :: "ollama_request \<Rightarrow> ollama_outcome"

text \<open>
  The promise around the search script in the chat route. It has no timer; it resolves
  with an \<open>error\<close> for the \<open>error\<close> event, a non-zero exit and output that does not
  parse, and only a \<open>spawn\<close> that throws leaves the \<open>try\<close> block (\<open>Inl\<close>).
\<close>

definition chat_search :: "'n runtime \<Rightarrow> proc_run \<Rightarrow> jsstring + 'n script_result" where
  "chat_search rt run =
     (case ending run of
        SpawnThrows e \<Rightarrow> Inl e
      | ErrorEvent msg \<Rightarrow> Inr (script_error msg)
      | Closed code out err \<Rightarrow>
          Inr (if code = Some 0 then
                 (case parse_results rt out of
                    Inl parseError \<Rightarrow> script_error (js ''Failed to parse chat history search output'')
                  | Inr results \<Rightarrow>
                      \<lparr>result_context = Some (map (format_context (percent rt)) results),
                       result_error = None, result_metadata = None\<rparr>)
               else script_error (if err \<noteq> [] then err else js ''Chat history search script failed'')))"

fun join :: "jsstring \<Rightarrow> jsstring list \<Rightarrow> jsstring" where
  "join sep [] = []"
| "join sep [x] = x"
| "join sep (x # y # ys) = x @ sep @ join sep (y # ys)"

text \<open>\<open>ctx.map((ctx, i) => `[${i+1}] ${ctx}`)\<close>\<close>

definition numbered :: "jsstring list \<Rightarrow> jsstring list" where
  "numbered ctx = map (\<lambda>(i, c). js ''['' @ dec_nat (i + 1) @ js ''] '' @ c) (enumerate 0 ctx)"

definition with_context :: "jsstring \<Rightarrow> jsstring list \<Rightarrow> jsstring" where
  "with_context base ctx =
     base @ [0x0A, 0x0A] @
     js ''You have access to relevant context from previous conversations:'' @ [0x0A, 0x0A] @
     join [0x0A, 0x0A] (numbered ctx) @ [0x0A, 0x0A] @
     js ''Use this context to maintain continuity and reference previous discussions when relevant.''"

definition no_context_note :: jsstring where
  "no_context_note =
     [0x0A, 0x0A] @ js ''(Note: No relevant conversation context found for this query.)''"

definition retrieval_failed_note :: jsstring where
  "retrieval_failed_note =
     [0x0A, 0x0A] @
     js ''(Note: Conversation context retrieval failed, proceeding without additional context.)''"

text \<open>
  The \<open>if (graphRAG)\<close> block: \<open>enhancedSystemPrompt\<close> from the stored prompt's content
  and the outcome of the search.
\<close>

definition enhancedSystemPrompt :: "jsstring \<Rightarrow> jsstring + 'n script_result \<Rightarrow> jsstring" where
  "enhancedSystemPrompt base outcome =
     (case outcome of
        Inl thrown \<Rightarrow> base @ retrieval_failed_note
      | Inr graphResult \<Rightarrow>
          (case result_context graphResult of
             None \<Rightarrow> base @ no_context_note
           | Some ctx \<Rightarrow>
               if length ctx > 0 then with_context base ctx else base @ no_context_note))"

text \<open>
  \<open>conversationMessages\<close>: the array \<open>messages\<close> when there is one, else the single
  \<open>message\<close> as a user turn, else nothing (the route answers 400).
\<close>

definition conversationMessages :: "chat_request \<Rightarrow> ChatMessage list option" where
  "conversationMessages req =
     (case req_messages req of
        Some msgs \<Rightarrow> Some msgs
      | None \<Rightarrow>
          if truthy_str (req_message req)
          then Some [\<lparr>cm_role = js ''user'', cm_content = the (req_message req)\<rparr>]
          else None)"

definition lastUserMessage :: "ChatMessage list \<Rightarrow> jsstring" where
  "lastUserMessage msgs =
     (case find (\<lambda>m. cm_role m = js ''user'') (rev msgs) of
        None \<Rightarrow> []
      | Some m \<Rightarrow> cm_content m)"

text \<open>\<open>ollamaMessages\<close> and \<open>ollamaRequestBody\<close>.\<close>

definition ollamaMessages :: "chat_request \<Rightarrow> ChatMessage list \<Rightarrow> jsstring \<Rightarrow> ChatMessage list" where
  "ollamaMessages req conv enhanced =
     (if req_messages req \<noteq> None
      then \<lparr>cm_role = js ''system'', cm_content = enhanced\<rparr> # conv
      else [\<lparr>cm_role = js ''system'', cm_content = enhanced\<rparr>,
            \<lparr>cm_role = js ''user'', cm_content = lastUserMessage conv\<rparr>])"

definition ollamaRequestBody :: "chat_request \<Rightarrow> ChatMessage list \<Rightarrow> jsstring \<Rightarrow> ollama_request" where
  "ollamaRequestBody req conv enhanced =
     \<lparr>o_model = (if truthy_str (req_model req) then the (req_model req)
                 else js ''mistral-small3.2:latest''),
      o_messages = ollamaMessages req conv enhanced,
      o_stream = True\<rparr>"

text \<open>From the outcome of the call to the language model to the response of the route.\<close>

fun respond :: "ollama_outcome \<Rightarrow> chat_response" where
  "respond FetchRejected = \<lparr>chat_status = 500, chat_body = Text (js ''Internal server error'')\<rparr>"
| "respond (HttpNotOk statusText) =
     \<lparr>chat_status = 500, chat_body = Text (js ''Failed to get response from Ollama'')\<rparr>"
| "respond (HttpOk chunks e) = \<lparr>chat_status = 200, chat_body = Streamed chunks e\<rparr>"

text \<open>\<open>promptId || 'default'\<close>\<close>

definition selectedPromptId :: "chat_request \<Rightarrow> jsstring" where
  "selectedPromptId req =
     (if truthy_str (req_promptId req) then the (req_promptId req) else js ''default'')"

text \<open>
  The system prompt that goes to the language model: the stored content, enhanced by the
  \<open>if (graphRAG)\<close> block when retrieval is enabled.
\<close>

definition chat_system_prompt ::
  "'n chat_env \<Rightarrow> chat_request \<Rightarrow> ChatMessage list \<Rightarrow> system_prompt \<Rightarrow> jsstring" where
  "chat_system_prompt env req conv systemPromptData =
     (if req_graphRAG req = Some True
      then enhancedSystemPrompt (prompt_content systemPromptData)
             (chat_search (chat_runtime env) (search_run env (lastUserMessage conv)))
      else prompt_content systemPromptData)"

definition POST_chat ::
  "'n chat_env \<Rightarrow> chat_request option \<Rightarrow> prompt_file \<Rightarrow> chat_response \<times> prompt_file" where
  "POST_chat env request file =
     (case request of
        None \<Rightarrow> (\<lparr>chat_status = 500, chat_body = Text (js ''Internal server error'')\<rparr>, file)
      | Some req \<Rightarrow>
          (case conversationMessages req of
             None \<Rightarrow>
               (\<lparr>chat_status = 400,
                 chat_body = Text (js ''Either message or messages array is required'')\<rparr>, file)
           | Some conv \<Rightarrow>
               (case getPromptById (chat_fs env) (selectedPromptId req) file of
                  (None, file1) \<Rightarrow>
                    (\<lparr>chat_status = 500, chat_body = Text (js ''System prompt not found'')\<rparr>, file1)
                | (Some systemPromptData, file1) \<Rightarrow>
                    (respond (ollama env
                       (ollamaRequestBody req conv
                          (chat_system_prompt env req conv systemPromptData))), file1))))"

text \<open>
  The retrieval step fails: the search process does not start or errors, exits with a
  code other than 0, or prints output that does not parse.
\<close>

definition search_fails :: "'n runtime \<Rightarrow> proc_run \<Rightarrow> bool" where
  "search_fails rt run =
     (case ending run of
        SpawnThrows e \<Rightarrow> True
      | ErrorEvent msg \<Rightarrow> True
      | Closed code out err \<Rightarrow> code \<noteq> Some 0 \<or> isl (parse_results rt out))"

section \<open>The chat components: what they send as history\<close>

record ui_message =
  ui_id :: jsstring
  ui_role :: jsstring
  ui_content :: jsstring

record backend_request =
  br_query :: jsstring
  br_chat_history :: "ChatMessage list"

definition role_content :: "ui_message \<Rightarrow> ChatMessage" where
  "role_content m = \<lparr>cm_role = ui_role m, cm_content = ui_content m\<rparr>"

text \<open>\<open>xs.slice(-n)\<close> for \<open>n > 0\<close>, and \<open>xs.slice(0, -1)\<close>.\<close>

definition slice_last :: "nat \<Rightarrow> 'a list \<Rightarrow> 'a list" where
  "slice_last n xs = drop (length xs - n) xs"

definition slice_but_last :: "'a list \<Rightarrow> 'a list" where
  "slice_but_last xs = take (length xs - 1) xs"

text \<open>
  \<open>handleSubmit\<close> of the chat interface: nothing is sent when the trimmed input is empty
  or a request is under way; otherwise the query and \<open>messages.slice(-4)\<close>, the messages
  before the new one.
\<close>

definition handleSubmit :: "ui_message list \<Rightarrow> jsstring \<Rightarrow> bool \<Rightarrow> backend_request option" where
  "handleSubmit messages input isLoading =
     (if trim input = [] \<or> isLoading then None
      else Some \<lparr>br_query = trim input,
                 br_chat_history = map role_content (slice_last 4 messages)\<rparr>)"

text \<open>
  \<open>sendMessage\<close> of \<open>Chat.tsx\<close>: \<open>currentMessages\<close> is the whole conversation with the new
  user message, and \<open>chat_history\<close> is all of it but that last message.
\<close>

definition sendMessage :: "ui_message list \<Rightarrow> jsstring \<Rightarrow> jsstring \<Rightarrow> bool \<Rightarrow> backend_request option" where
  "sendMessage messages new_id input isLoading =
     (if trim input = [] \<or> isLoading then None
      else let userMessage = \<lparr>ui_id = new_id, ui_role = js ''user'', ui_content = trim input\<rparr>;
               currentMessages = map role_content (messages @ [userMessage])
           in Some \<lparr>br_query = ui_content userMessage,
                    br_chat_history = slice_but_last currentMessages\<rparr>)"

section \<open>Example inputs\<close>

text \<open>Concrete environments and requests, used where a theorem is run on an input.\<close>

definition example_fs :: fs_env where
  "example_fs =
     \<lparr>now_iso = js ''2025-01-01T00:00:00.000Z'', now_ms = 1735689600000,
      random_suffix = js ''k3j9x0q1z'', write_ok = True\<rparr>"

text \<open>A runtime on which no output parses, and a search that exits with code 1.\<close>

definition unparseable_runtime :: "jsstring runtime" where
  "unparseable_runtime = \<lparr>parse_results = Inl, percent = id\<rparr>"

definition failing_search :: proc_run where
  "failing_search =
     \<lparr>elapsed_ms = 10,
      ending = Closed (Some 1) [] (js ''Traceback (most recent call last): ...'')\<rparr>"

text \<open>
  A language model that answers every request with the one chunk \<open>Hi\<close>, and one whose
  stream breaks after a first chunk.
\<close>

definition constant_model :: "ollama_request \<Rightarrow> ollama_outcome" where
  "constant_model r = HttpOk [js ''Hi''] StreamDone"

definition breaking_model :: "ollama_request \<Rightarrow> ollama_outcome" where
  "breaking_model r = HttpOk [js ''The capital of''] StreamFailed"

definition example_chat_env :: "(ollama_request \<Rightarrow> ollama_outcome) \<Rightarrow> jsstring chat_env" where
  "example_chat_env model =
     \<lparr>chat_fs = example_fs, chat_runtime = unparseable_runtime,
      search_run = (\<lambda>q. failing_search), ollama = model\<rparr>"

definition hello_request :: "bool \<Rightarrow> chat_request" where
  "hello_request graphRAG =
     \<lparr>req_message = Some (js ''hello''), req_messages = None, req_model = None,
      req_promptId = None, req_graphRAG = Some graphRAG\<rparr>"

definition hello_turn :: ChatMessage where
  "hello_turn = \<lparr>cm_role = js ''user'', cm_content = js ''hello''\<rparr>"

definition conversation_request :: "ChatMessage list \<Rightarrow> chat_request" where
  "conversation_request conv =
     \<lparr>req_message = None, req_messages = Some conv, req_model = None,
      req_promptId = None, req_graphRAG = None\<rparr>"

definition example_ui_message :: ui_message where
  "example_ui_message = \<lparr>ui_id = js ''user-1'', ui_role = js ''user'', ui_content = js ''hi''\<rparr>"

text \<open>Language models whose call fails before any answer text arrives.\<close>

definition unreachable_model :: "ollama_request \<Rightarrow> ollama_outcome" where
  "unreachable_model r = FetchRejected"

definition overloaded_model :: "ollama_request \<Rightarrow> ollama_outcome" where
  "overloaded_model r = HttpNotOk (js ''Service Unavailable'')"

text \<open>
  Search results: one whose content is 401 code units long, one short; a runtime on
  which the script's output parses to given results; and runs of the search script that
  end well after 1.2, 6 and 31 seconds.
\<close>

definition long_result :: "jsstring search_result" where
  "long_result =
     \<lparr>session_id = js ''session#42'', session_title = js ''Trip planning'', message_index = 3,
      role = js ''user'', content = replicate 401 0x61, relevance_score = js ''87.5'',
      conversation_created = js ''2025-01-01''\<rparr>"

definition short_result :: "jsstring search_result" where
  "short_result =
     \<lparr>session_id = js ''session#7'', session_title = js ''Recipes'', message_index = 0,
      role = js ''assistant'', content = js ''Use two eggs.'', relevance_score = js ''61.0'',
      conversation_created = js ''2025-01-02''\<rparr>"

definition parsing_runtime :: "jsstring search_result list \<Rightarrow> jsstring runtime" where
  "parsing_runtime results = \<lparr>parse_results = (\<lambda>out. Inr results), percent = id\<rparr>"

definition search_taking :: "nat \<Rightarrow> jsstring \<Rightarrow> int \<Rightarrow> proc_run" where
  "search_taking ms q lim = \<lparr>elapsed_ms = ms, ending = Closed (Some 0) (js ''[...]'') []\<rparr>"

definition trip_query :: graph_rag_request where
  "trip_query = \<lparr>query = JStr (js ''trip''), limit = None\<rparr>"

text \<open>Sessions for the ingestion route, and environments in which the script works or fails.\<close>

definition good_session :: chat_session where
  "good_session =
     \<lparr>cs_id = Some (js ''s1''), cs_title = js ''Trip planning'',
      cs_messages = Some [\<lparr>msg_role = Some (js ''user''), msg_content = Some (js ''hello'')\<rparr>],
      cs_model = js ''mistral'', cs_promptId = js ''default'',
      cs_createdAt = 1735689600000, cs_updatedAt = 1735689600000\<rparr>"

definition blank_session :: chat_session where
  "blank_session =
     \<lparr>cs_id = Some (js ''s2''), cs_title = js ''Empty'',
      cs_messages = Some [\<lparr>msg_role = Some (js ''user''), msg_content = Some (js ''   '')\<rparr>],
      cs_model = js ''mistral'', cs_promptId = js ''default'',
      cs_createdAt = 1735689600000, cs_updatedAt = 1735689600000\<rparr>"

definition no_id_session :: chat_session where
  "no_id_session =
     \<lparr>cs_id = None, cs_title = js ''Untitled'',
      cs_messages = Some [\<lparr>msg_role = Some (js ''user''), msg_content = Some (js ''hello'')\<rparr>],
      cs_model = js ''mistral'', cs_promptId = js ''default'',
      cs_createdAt = 1735689600000, cs_updatedAt = 1735689600000\<rparr>"

definition working_ingest_env :: ingest_env where
  "working_ingest_env =
     \<lparr>script_exists = True, fs_failure = None,
      ingest_run = \<lparr>elapsed_ms = 1200, ending = Closed (Some 0) (js ''done'') []\<rparr>,
      parse_output = (\<lambda>out. NotJson)\<rparr>"

definition failing_ingest_env :: ingest_env where
  "failing_ingest_env =
     \<lparr>script_exists = True, fs_failure = None, ingest_run = failing_search,
      parse_output = (\<lambda>out. NotJson)\<rparr>"

text \<open>
  Searches that fail whatever the query: one that exits with code 1 and a traceback on
  stderr, and an ingestion script that exits with code 2 and nothing on stderr.
\<close>

definition search_failing :: "jsstring \<Rightarrow> int \<Rightarrow> proc_run" where
  "search_failing q lim = failing_search"

definition silent_failing_ingest_env :: ingest_env where
  "silent_failing_ingest_env =
     \<lparr>script_exists = True, fs_failure = None,
      ingest_run = \<lparr>elapsed_ms = 40, ending = Closed (Some 2) (js ''partial output'') []\<rparr>,
      parse_output = (\<lambda>out. NotJson)\<rparr>"

section \<open>Literals\<close>

lemma js_Nil_iff [simp]: "js s = [] \<longleftrightarrow> s = []"
  by (simp add: js_def)

section \<open>Properties of the sanitizer\<close>

lemma set_tl_subset: "set (tl xs) \<subseteq> set xs"
  by (cases xs) auto

lemma set_tl_dropWhile: "set (tl (dropWhile P cs)) \<subseteq> set cs"
proof -
  have "set (tl (dropWhile P cs)) \<subseteq> set (dropWhile P cs)"
    by (rule set_tl_subset)
  also have "\<dots> \<subseteq> set cs" by (auto dest: set_dropWhileD)
  finally show ?thesis .
qed

lemma set_strip_tags: "set (strip_tags s) \<subseteq> set s"
proof (induction s rule: strip_tags.induct)
  case 1
  show ?case by simp
next
  case (2 c cs)
  show ?case
  proof (cases "c = LT \<and> GT \<in> set cs")
    case True
    with 2 have "set (strip_tags (c # cs)) \<subseteq> set (tl (dropWhile (\<lambda>x. x \<noteq> GT) cs))"
      by simp
    also have "\<dots> \<subseteq> set cs" by (rule set_tl_dropWhile)
    finally show ?thesis by auto
  next
    case False
    with 2 show ?thesis by auto
  qed
qed

lemma tagfree_strip_tags: "tagfree (strip_tags s)"
proof (induction s rule: strip_tags.induct)
  case 1
  show ?case by simp
next
  case (2 c cs)
  show ?case
  proof (cases "c = LT \<and> GT \<in> set cs")
    case True
    with 2 show ?thesis by simp
  next
    case False
    with 2 have ih: "tagfree (strip_tags cs)" by simp
    from False have "c = LT \<Longrightarrow> GT \<notin> set (strip_tags cs)"
      using set_strip_tags [of cs] by auto
    with False ih show ?thesis by auto
  qed
qed

lemma strip_tags_tagfree_id: "tagfree s \<Longrightarrow> strip_tags s = s"
  by (induction s) auto

lemma tagfree_append: "tagfree (xs @ ys) \<Longrightarrow> tagfree xs \<and> tagfree ys"
  by (induction xs) auto

lemma tagfree_dropWhile: "tagfree s \<Longrightarrow> tagfree (dropWhile P s)"
  using tagfree_append [of "takeWhile P s" "dropWhile P s"] by simp

lemma rev_dropWhile_rev_prefix:
  "rev (dropWhile P (rev t)) @ rev (takeWhile P (rev t)) = t"
proof -
  have "rev (takeWhile P (rev t) @ dropWhile P (rev t)) = t" by simp
  then show ?thesis by (simp only: rev_append)
qed

lemma tagfree_trim: "tagfree s \<Longrightarrow> tagfree (trim s)"
proof -
  assume "tagfree s"
  then have t: "tagfree (dropWhile is_js_whitespace s)" by (rule tagfree_dropWhile)
  let ?t = "dropWhile is_js_whitespace s"
  from t have "tagfree (rev (dropWhile is_js_whitespace (rev ?t)) @ rev (takeWhile is_js_whitespace (rev ?t)))"
    by (simp only: rev_dropWhile_rev_prefix)
  then show ?thesis unfolding trim_def by (blast dest: tagfree_append)
qed

lemma set_trim: "set (trim s) \<subseteq> set s"
proof -
  have "set (trim s) = set (dropWhile is_js_whitespace (rev (dropWhile is_js_whitespace s)))"
    by (simp add: trim_def)
  also have "\<dots> \<subseteq> set (rev (dropWhile is_js_whitespace s))"
    by (auto dest: set_dropWhileD)
  also have "\<dots> \<subseteq> set s" by (auto dest: set_dropWhileD)
  finally show ?thesis .
qed

lemma not_starts_dropWhile: "\<not> starts_with_whitespace (dropWhile is_js_whitespace s)"
  by (induction s) auto

lemma starts_with_whitespace_hd:
  "starts_with_whitespace s \<longleftrightarrow> s \<noteq> [] \<and> is_js_whitespace (hd s)"
  by (cases s) auto

lemma dropWhile_id_iff: "\<not> starts_with_whitespace s \<Longrightarrow> dropWhile is_js_whitespace s = s"
  by (cases s) auto

lemma not_ends_trim: "\<not> ends_with_whitespace (trim s)"
  by (simp add: ends_with_whitespace_def trim_def not_starts_dropWhile)

lemma not_starts_trim: "\<not> starts_with_whitespace (trim s)"
proof -
  let ?t = "dropWhile is_js_whitespace s"
  have t: "\<not> starts_with_whitespace ?t" by (rule not_starts_dropWhile)
  have eq: "trim s @ rev (takeWhile is_js_whitespace (rev ?t)) = ?t"
    unfolding trim_def by (rule rev_dropWhile_rev_prefix)
  show ?thesis
  proof (cases "trim s")
    case Nil
    then show ?thesis by simp
  next
    case (Cons c cs)
    with eq have "?t = c # (cs @ rev (takeWhile is_js_whitespace (rev ?t)))" by simp
    with t have "\<not> is_js_whitespace c" by (metis starts_with_whitespace.simps(2))
    with Cons show ?thesis by simp
  qed
qed

lemma trim_fixed:
  "\<not> starts_with_whitespace s \<Longrightarrow> \<not> ends_with_whitespace s \<Longrightarrow> trim s = s"
  by (simp add: trim_def ends_with_whitespace_def dropWhile_id_iff)

lemma trim_idem: "trim (trim s) = trim s"
  by (rule trim_fixed [OF not_starts_trim not_ends_trim])

lemma filter_id_set: "\<forall>c \<in> set s. P c \<Longrightarrow> filter P s = s"
  by (induction s) auto

lemma sanitize_chain_no_null: "0 \<notin> set (sanitize_chain s)"
proof -
  have "set (sanitize_chain s) \<subseteq> set (remove_null_bytes s)"
    unfolding sanitize_chain_def
    using set_trim [of "strip_tags (remove_control_chars (remove_null_bytes s))"]
      set_strip_tags [of "remove_control_chars (remove_null_bytes s)"]
    by (auto simp: remove_control_chars_def)
  then show ?thesis by (auto simp: remove_null_bytes_def)
qed

lemma sanitize_chain_no_control: "c \<in> set (sanitize_chain s) \<Longrightarrow> \<not> is_control_char c"
proof -
  assume "c \<in> set (sanitize_chain s)"
  then have "c \<in> set (strip_tags (remove_control_chars (remove_null_bytes s)))"
    unfolding sanitize_chain_def using set_trim by blast
  then have "c \<in> set (remove_control_chars (remove_null_bytes s))"
    using set_strip_tags by blast
  then show ?thesis by (simp add: remove_control_chars_def)
qed

lemma sanitize_chain_tagfree: "tagfree (sanitize_chain s)"
  unfolding sanitize_chain_def by (rule tagfree_trim [OF tagfree_strip_tags])

lemma sanitize_chain_idem: "sanitize_chain (sanitize_chain s) = sanitize_chain s"
proof -
  have 1: "remove_null_bytes (sanitize_chain s) = sanitize_chain s"
    unfolding remove_null_bytes_def
    by (rule filter_id_set) (use sanitize_chain_no_null [of s] in auto)
  have 2: "remove_control_chars (sanitize_chain s) = sanitize_chain s"
    unfolding remove_control_chars_def
    by (rule filter_id_set) (use sanitize_chain_no_control [of _ s] in auto)
  have 3: "strip_tags (sanitize_chain s) = sanitize_chain s"
    by (rule strip_tags_tagfree_id [OF sanitize_chain_tagfree])
  have 4: "trim (sanitize_chain s) = sanitize_chain s"
    unfolding sanitize_chain_def by (rule trim_idem)
  have "sanitize_chain (sanitize_chain s) = trim (strip_tags (remove_control_chars (remove_null_bytes (sanitize_chain s))))"
    by (simp only: sanitize_chain_def)
  then show ?thesis by (simp only: 1 2 3 4)
qed

lemma sanitize_chain_Nil: "sanitize_chain [] = []"
  by (simp add: sanitize_chain_def remove_null_bytes_def remove_control_chars_def trim_def)

text \<open>
  Claim C10. \<open>sanitizeUserInput\<close> is defined on every input (the model is a total
  function: the tag scan terminates) and is idempotent: sanitizing its own result changes
  nothing. The result holds no null code unit, neither starts nor ends with a whitespace
  code unit, and is the empty string for every input that is not a string or is the
  empty string.
\<close>

theorem sanitizeUserInput_idempotent_total:
  "sanitizeUserInput (JStr (sanitizeUserInput v)) = sanitizeUserInput v
   \<and> 0 \<notin> set (sanitizeUserInput v)
   \<and> \<not> starts_with_whitespace (sanitizeUserInput v)
   \<and> \<not> ends_with_whitespace (sanitizeUserInput v)
   \<and> (\<not> is_string v \<or> v = JStr [] \<longrightarrow> sanitizeUserInput v = [])"
proof (intro conjI)
  show "sanitizeUserInput (JStr (sanitizeUserInput v)) = sanitizeUserInput v"
    by (cases v) (simp_all add: sanitizeUserInput_def sanitize_chain_idem sanitize_chain_Nil)
  show "0 \<notin> set (sanitizeUserInput v)"
    using sanitize_chain_no_null by (simp add: sanitizeUserInput_def)
  show "\<not> starts_with_whitespace (sanitizeUserInput v)"
    using not_starts_trim by (simp add: sanitizeUserInput_def sanitize_chain_def)
  show "\<not> ends_with_whitespace (sanitizeUserInput v)"
    using not_ends_trim by (simp add: sanitizeUserInput_def sanitize_chain_def ends_with_whitespace_def)
  show "\<not> is_string v \<or> v = JStr [] \<longrightarrow> sanitizeUserInput v = []"
    by (auto simp: sanitizeUserInput_def)
qed

theorem sanitizeUserInput_idempotent_total_witness:
  "\<not> is_string (JNum 123) \<and> sanitizeUserInput (JNum 123) = []
   \<and> sanitizeUserInput (JStr []) = []
   \<and> sanitizeUserInput (JStr (js '' <b>a</b> '')) = js ''a''
   \<and> sanitizeUserInput (JStr (sanitizeUserInput (JStr (js '' <b>a</b> '')))) = js ''a''"
proof -
  have v: "sanitizeUserInput (JStr (js '' <b>a</b> '')) = js ''a''"
    by (simp add: sanitizeUserInput_def sanitize_chain_def js_def remove_null_bytes_def
        remove_control_chars_def is_control_char_def trim_def is_js_whitespace_def)
  show ?thesis
    using sanitizeUserInput_idempotent_total [of "JNum 123"]
      sanitizeUserInput_idempotent_total [of "JStr []"]
      sanitizeUserInput_idempotent_total [of "JStr (js '' <b>a</b> '')"]
    by (simp add: v)
qed

text \<open>
  The cases of the source's test file that the function meets: null bytes, control
  characters, tags, trimming, and inputs that are not strings.
\<close>

lemma sanitizeUserInput_source_tests:
  "sanitizeUserInput (JStr (js ''Hello'' @ [0] @ js ''World'')) = js ''HelloWorld''"
  "sanitizeUserInput (JStr (js ''Hello'' @ [1, 2, 3] @ js ''World'')) = js ''HelloWorld''"
  "sanitizeUserInput (JStr (js ''<script>alert(1)</script>Hello'')) = js ''alert(1)Hello''"
  "sanitizeUserInput (JStr (js ''<b>Bold</b> text'')) = js ''Bold text''"
  "sanitizeUserInput (JStr (js ''  Hello World  '')) = js ''Hello World''"
  "sanitizeUserInput JNull = []"
  "sanitizeUserInput JUndefined = []"
  "sanitizeUserInput (JStr []) = []"
  "sanitizeUserInput (JNum 123) = []"
  "sanitizeUserInput JObj = []"
  by (simp_all add: sanitizeUserInput_def sanitize_chain_def js_def remove_null_bytes_def
      remove_control_chars_def is_control_char_def trim_def is_js_whitespace_def)

section \<open>The default system prompt\<close>

lemma readPrompts_cases:
  assumes "default_kept file"
  shows "readPrompts env file = ([], Missing)
       \<or> (\<exists>prompts. readPrompts env file = (prompts, Stored prompts)
             \<and> js ''default'' \<in> set (map prompt_id prompts))"
  using assms
  by (cases "file") (auto simp: readPrompts_def defaultPrompt_def)

lemma findIndex_less: "findIndex P xs = Some i \<Longrightarrow> i < length xs"
  by (induction xs arbitrary: i) (auto split: if_splits)

lemma map_prompt_id_update:
  "i < length prompts \<Longrightarrow>
   map prompt_id (prompts[i := (prompts ! i)\<lparr>prompt_name := n, prompt_content := c, prompt_updatedAt := u\<rparr>])
     = map prompt_id prompts"
  by (simp add: map_update list_update_same_conv)

lemma createPrompt_kept:
  assumes "default_kept file"
  shows "default_kept (snd (createPrompt env nm txt file))"
  using assms
  by (cases "file")
     (auto simp: createPrompt_def readPrompts_def writePrompts_def defaultPrompt_def Let_def)

lemma updatePrompt_kept:
  assumes "default_kept file"
  shows "default_kept (snd (updatePrompt env pid nm txt file))"
proof -
  from readPrompts_cases [OF assms, of env] show ?thesis
  proof
    assume "readPrompts env file = ([], Missing)"
    then have "updatePrompt env pid nm txt file = (Inr None, Missing)"
      by (simp add: updatePrompt_def)
    then show ?thesis by simp
  next
    assume "\<exists>prompts. readPrompts env file = (prompts, Stored prompts)
             \<and> js ''default'' \<in> set (map prompt_id prompts)"
    then obtain prompts where r: "readPrompts env file = (prompts, Stored prompts)"
      and d: "js ''default'' \<in> set (map prompt_id prompts)" by blast
    show ?thesis
    proof (cases "findIndex (\<lambda>p. prompt_id p = pid) prompts")
      case None
      with r d show ?thesis by (simp add: updatePrompt_def)
    next
      case (Some i)
      then have "i < length prompts" by (rule findIndex_less)
      then have "map prompt_id (prompts[i := (prompts ! i)\<lparr>prompt_name := nm,
                   prompt_content := txt, prompt_updatedAt := now_iso env\<rparr>])
                 = map prompt_id prompts"
        by (rule map_prompt_id_update)
      with r d Some show ?thesis
        by (simp add: updatePrompt_def writePrompts_def Let_def del: set_map)
    qed
  qed
qed

lemma deletePrompt_kept:
  assumes "default_kept file" and "pid \<noteq> js ''default''"
  shows "default_kept (snd (deletePrompt env pid file))"
proof -
  from readPrompts_cases [OF assms(1), of env] show ?thesis
  proof
    assume "readPrompts env file = ([], Missing)"
    then have "deletePrompt env pid file = (Inr False, Missing)"
      by (simp add: deletePrompt_def)
    then show ?thesis by simp
  next
    assume "\<exists>prompts. readPrompts env file = (prompts, Stored prompts)
             \<and> js ''default'' \<in> set (map prompt_id prompts)"
    then obtain prompts where r: "readPrompts env file = (prompts, Stored prompts)"
      and d: "js ''default'' \<in> set (map prompt_id prompts)" by blast
    from d assms(2) have "js ''default'' \<in> set (map prompt_id (filter (\<lambda>p. prompt_id p \<noteq> pid) prompts))"
      by auto
    with r d show ?thesis
      by (simp add: deletePrompt_def writePrompts_def Let_def del: set_map)
  qed
qed

lemma readPrompts_kept:
  assumes "default_kept file"
  shows "default_kept (snd (readPrompts env file))"
  using readPrompts_cases [OF assms, of env] by auto

lemma serve_kept:
  assumes "default_kept file"
  shows "default_kept (snd (serve env r file))"
proof (cases r)
  case ListPrompts
  with readPrompts_kept [OF assms, of env] show ?thesis
    by (cases "readPrompts env file") (simp add: GET_prompts_def)
next
  case (CreatePrompt b)
  show ?thesis
  proof (cases b)
    case None
    with CreatePrompt assms show ?thesis by (simp add: POST_prompts_def)
  next
    case (Some pb)
    obtain res file1 where c: "createPrompt env (the_string (body_name pb))
        (the_string (body_content pb)) file = (res, file1)" by fastforce
    with createPrompt_kept [OF assms, of env "the_string (body_name pb)" "the_string (body_content pb)"]
    have "default_kept file1" by simp
    with CreatePrompt Some c assms show ?thesis
      by (auto simp: POST_prompts_def split: sum.splits)
  qed
next
  case (ReadPrompt pid)
  with readPrompts_kept [OF assms, of env] show ?thesis
    by (cases "readPrompts env file")
       (auto simp: GET_prompt_def getPromptById_def split: option.splits)
next
  case (UpdatePrompt pid b)
  show ?thesis
  proof (cases b)
    case None
    with UpdatePrompt assms show ?thesis by (simp add: PUT_prompt_def)
  next
    case (Some pb)
    obtain res file1 where c: "updatePrompt env pid (the_string (body_name pb))
        (the_string (body_content pb)) file = (res, file1)" by fastforce
    with updatePrompt_kept [OF assms, of env pid "the_string (body_name pb)" "the_string (body_content pb)"]
    have "default_kept file1" by simp
    with UpdatePrompt Some c assms show ?thesis
      by (auto simp: PUT_prompt_def split: sum.splits option.splits)
  qed
next
  case (DeletePrompt pid)
  show ?thesis
  proof (cases "pid = js ''default''")
    case True
    with DeletePrompt assms show ?thesis by (simp add: DELETE_prompt_def)
  next
    case False
    obtain res file1 where c: "deletePrompt env pid file = (res, file1)" by fastforce
    with deletePrompt_kept [OF assms False, of env] have "default_kept file1" by simp
    with DeletePrompt False c show ?thesis
      by (auto simp: DELETE_prompt_def split: sum.splits bool.splits)
  qed
qed

lemma serve_all_kept: "default_kept file \<Longrightarrow> default_kept (serve_all rs file)"
proof (induction rs arbitrary: "file")
  case Nil
  then show ?case by simp
next
  case (Cons a rs)
  obtain env r where a: "a = (env, r)" by (cases a)
  from Cons.prems have "default_kept (snd (serve env r file))" by (rule serve_kept)
  then have "default_kept (serve_all rs (snd (serve env r file)))" by (rule Cons.IH)
  with a show ?case by simp
qed

text \<open>
  Claim C9. A DELETE request for the prompt id \<open>default\<close> is answered with status 400
  and leaves the file untouched, whatever the file and the environment are. Hence, from a
  file that is absent or holds the default prompt, every sequence of requests of the
  public interface (list, create, read, update, delete, each in any environment) ends in
  such a file again, and a read that can write then returns a list with the default
  prompt in it.
\<close>

theorem default_prompt_not_deletable:
  "DELETE_prompt env (js ''default'') file =
      (json_response 400 [(''error'', JsonStr (js ''Cannot delete the default system prompt''))], file)
   \<and> (default_kept file \<longrightarrow> default_kept (serve_all rs file))
   \<and> (default_kept file \<and> write_ok env \<longrightarrow>
        js ''default'' \<in> set (map prompt_id (fst (readPrompts env (serve_all rs file)))))"
proof (intro conjI impI)
  show "DELETE_prompt env (js ''default'') file =
      (json_response 400 [(''error'', JsonStr (js ''Cannot delete the default system prompt''))], file)"
    by (simp add: DELETE_prompt_def)
next
  assume "default_kept file"
  then show "default_kept (serve_all rs file)" by (rule serve_all_kept)
next
  assume a: "default_kept file \<and> write_ok env"
  then have "default_kept (serve_all rs file)" by (simp add: serve_all_kept)
  then show "js ''default'' \<in> set (map prompt_id (fst (readPrompts env (serve_all rs file))))"
    using a by (cases "serve_all rs file") (auto simp: readPrompts_def defaultPrompt_def)
qed

theorem default_prompt_not_deletable_witness:
  "default_kept Missing
   \<and> write_ok \<lparr>now_iso = js ''t'', now_ms = 1, random_suffix = js ''x'', write_ok = True\<rparr>
   \<and> default_kept (serve_all
         [(\<lparr>now_iso = js ''t'', now_ms = 1, random_suffix = js ''x'', write_ok = True\<rparr>,
           CreatePrompt (Some \<lparr>body_name = JStr (js ''n''), body_content = JStr (js ''c'')\<rparr>)),
          (\<lparr>now_iso = js ''t'', now_ms = 1, random_suffix = js ''x'', write_ok = True\<rparr>,
           DeletePrompt (js ''default''))] Missing)
   \<and> js ''default'' \<in> set (map prompt_id (fst (readPrompts
         \<lparr>now_iso = js ''t'', now_ms = 1, random_suffix = js ''x'', write_ok = True\<rparr>
         (serve_all
         [(\<lparr>now_iso = js ''t'', now_ms = 1, random_suffix = js ''x'', write_ok = True\<rparr>,
           CreatePrompt (Some \<lparr>body_name = JStr (js ''n''), body_content = JStr (js ''c'')\<rparr>)),
          (\<lparr>now_iso = js ''t'', now_ms = 1, random_suffix = js ''x'', write_ok = True\<rparr>,
           DeletePrompt (js ''default''))] Missing))))"
proof -
  have h: "default_kept Missing" by simp
  have w: "write_ok \<lparr>now_iso = js ''t'', now_ms = 1, random_suffix = js ''x'', write_ok = True\<rparr>"
    by simp
  from h w show ?thesis
    using default_prompt_not_deletable
      [of "\<lparr>now_iso = js ''t'', now_ms = 1, random_suffix = js ''x'', write_ok = True\<rparr>" Missing
          "[(\<lparr>now_iso = js ''t'', now_ms = 1, random_suffix = js ''x'', write_ok = True\<rparr>,
           CreatePrompt (Some \<lparr>body_name = JStr (js ''n''), body_content = JStr (js ''c'')\<rparr>)),
          (\<lparr>now_iso = js ''t'', now_ms = 1, random_suffix = js ''x'', write_ok = True\<rparr>,
           DeletePrompt (js ''default''))]"]
    by blast
qed

section \<open>The retrieval route\<close>

lemma runPythonScript_timeout:
  assumes "search_timeout_ms \<le> elapsed_ms run"
    and "ending run = Closed code out err \<or> ending run = ErrorEvent msg"
  shows "runPythonScript rt run = Inr (script_error (js ''Python script timed out after 30 seconds''))"
  using assms by (auto simp: runPythonScript_def)

lemma runPythonScript_results:
  assumes "elapsed_ms run < search_timeout_ms"
    and "ending run = Closed (Some 0) out err"
    and "parse_results rt out = Inr results"
  shows "runPythonScript rt run =
           Inr \<lparr>result_context = Some (map (format_context (percent rt)) results),
                result_error = None, result_metadata = Some (map metadata_of results)\<rparr>"
  using assms by (simp add: runPythonScript_def)

lemma POST_graph_rag_valid:
  assumes "\<not> falsy (query req)" and "is_string (query req)"
  shows "POST_graph_rag rt search (Some req) =
     (case runPythonScript rt (search (the_string (query req))
               (requested_limit req)) of
        Inl thrown \<Rightarrow> json_response 500 [(''error'', JsonStr (js ''Internal server error''))]
      | Inr result \<Rightarrow>
          if truthy_str (result_error result)
          then json_response 500 [(''error'', JsonStr (js ''Failed to retrieve chat context''))]
          else json_response 200
                 ((case result_context result of
                     None \<Rightarrow> []
                   | Some ctx \<Rightarrow> [(''context'', JsonArr (map JsonStr ctx))]) @
                  [(''query'', JsonStr (the_string (query req))),
                   (''limit'', JsonNum (requested_limit req))]))"
  using assms by (simp add: POST_graph_rag_def Let_def)

lemma POST_graph_rag_timed_out:
  assumes "\<not> falsy (query req)" and "is_string (query req)"
    and "run = search (the_string (query req)) (requested_limit req)"
    and "search_timeout_ms \<le> elapsed_ms run"
    and "ending run = Closed code out err \<or> ending run = ErrorEvent msg"
  shows "POST_graph_rag rt search (Some req)
          = json_response 500 [(''error'', JsonStr (js ''Failed to retrieve chat context''))]"
proof -
  have "runPythonScript rt run
               = Inr (script_error (js ''Python script timed out after 30 seconds''))"
    using assms(4,5) by (rule runPythonScript_timeout)
  then show ?thesis
    by (simp add: POST_graph_rag_valid [OF assms(1,2)] assms(3) [symmetric] script_error_def)
qed

lemma POST_graph_rag_results:
  assumes "\<not> falsy (query req)" and "is_string (query req)"
    and "run = search (the_string (query req)) (requested_limit req)"
    and "elapsed_ms run < search_timeout_ms"
    and "ending run = Closed (Some 0) out err"
    and "parse_results rt out = Inr results"
  shows "POST_graph_rag rt search (Some req)
          = json_response 200
              [(''context'', JsonArr (map JsonStr (map (format_context (percent rt)) results))),
               (''query'', JsonStr (the_string (query req))),
               (''limit'', JsonNum (requested_limit req))]"
proof -
  have "runPythonScript rt run =
           Inr \<lparr>result_context = Some (map (format_context (percent rt)) results),
                result_error = None, result_metadata = Some (map metadata_of results)\<rparr>"
    using assms(4,5,6) by (rule runPythonScript_results)
  then show ?thesis
    by (simp add: POST_graph_rag_valid [OF assms(1,2)] assms(3) [symmetric])
qed

text \<open>
  Claim C2, as amended. The retrieval route runs one search process, not two branches,
  under one explicit timeout of 30 seconds. When the process has not ended within that
  time the call fails as a whole: status 500 with a fixed error and no candidates. When
  the process ends earlier with exit code 0 and output that parses, the call returns all
  formatted results with status 200.
\<close>

theorem retrieval_timeout:
  assumes "\<not> falsy (query req)" and "is_string (query req)"
    and "run = search (the_string (query req)) (requested_limit req)"
  shows "search_timeout_ms = 30000
     \<and> (search_timeout_ms \<le> elapsed_ms run
          \<and> (ending run = Closed code out err \<or> ending run = ErrorEvent msg) \<longrightarrow>
        POST_graph_rag rt search (Some req)
          = json_response 500 [(''error'', JsonStr (js ''Failed to retrieve chat context''))])
     \<and> (elapsed_ms run < search_timeout_ms \<and> ending run = Closed (Some 0) out' err'
          \<and> parse_results rt out' = Inr results \<longrightarrow>
        POST_graph_rag rt search (Some req)
          = json_response 200
              [(''context'', JsonArr (map JsonStr (map (format_context (percent rt)) results))),
               (''query'', JsonStr (the_string (query req))),
               (''limit'', JsonNum (requested_limit req))])"
proof (intro conjI impI)
  show "search_timeout_ms = 30000" by (simp add: search_timeout_ms_def)
next
  assume "search_timeout_ms \<le> elapsed_ms run
          \<and> (ending run = Closed code out err \<or> ending run = ErrorEvent msg)"
  then show "POST_graph_rag rt search (Some req)
          = json_response 500 [(''error'', JsonStr (js ''Failed to retrieve chat context''))]"
    using POST_graph_rag_timed_out [where search = search and req = req and run = run, OF assms] by blast
next
  assume "elapsed_ms run < search_timeout_ms \<and> ending run = Closed (Some 0) out' err'
          \<and> parse_results rt out' = Inr results"
  then show "POST_graph_rag rt search (Some req)
          = json_response 200
              [(''context'', JsonArr (map JsonStr (map (format_context (percent rt)) results))),
               (''query'', JsonStr (the_string (query req))),
               (''limit'', JsonNum (requested_limit req))]"
    using POST_graph_rag_results [where search = search and req = req and run = run, OF assms] by blast
qed

lemma trip_query_valid: "\<not> falsy (query trip_query)" "is_string (query trip_query)"
  by (simp_all add: trip_query_def)

lemma trip_query_run:
  "\<lparr>elapsed_ms = ms, ending = Closed (Some 0) (js ''[...]'') []\<rparr>
     = search_taking ms (the_string (query trip_query)) (requested_limit trip_query)"
  by (simp add: search_taking_def)

lemma trip_query_fields:
  "the_string (query trip_query) = js ''trip''"
  "requested_limit trip_query = 5"
  by (simp_all add: trip_query_def requested_limit_def)

lemma example_search_late:
  assumes "search_timeout_ms \<le> ms"
  shows "POST_graph_rag rt (search_taking ms) (Some trip_query)
     = json_response 500 [(''error'', JsonStr (js ''Failed to retrieve chat context''))]"
  by (rule POST_graph_rag_timed_out [where search = "search_taking ms" and req = trip_query, OF trip_query_valid trip_query_run])
     (use assms in simp_all)

lemma example_search_in_time:
  assumes "ms < search_timeout_ms"
  shows "POST_graph_rag (parsing_runtime results) (search_taking ms) (Some trip_query)
     = json_response 200
         [(''context'', JsonArr (map JsonStr (map (format_context id) results))),
          (''query'', JsonStr (js ''trip'')), (''limit'', JsonNum 5)]"
  using POST_graph_rag_results [where search = "search_taking ms" and req = trip_query and rt = "parsing_runtime results" and results = results, OF trip_query_valid trip_query_run]
    assms
  by (simp add: parsing_runtime_def trip_query_fields)

theorem retrieval_timeout_witness:
  "\<not> falsy (query trip_query) \<and> is_string (query trip_query)
   \<and> search_timeout_ms \<le> elapsed_ms \<lparr>elapsed_ms = 31000, ending = Closed (Some 0) (js ''[...]'') []\<rparr>
   \<and> POST_graph_rag (parsing_runtime [short_result]) (search_taking 31000) (Some trip_query)
       = json_response 500 [(''error'', JsonStr (js ''Failed to retrieve chat context''))]
   \<and> elapsed_ms \<lparr>elapsed_ms = 1200, ending = Closed (Some 0) (js ''[...]'') []\<rparr> < search_timeout_ms
   \<and> parse_results (parsing_runtime [short_result]) (js ''[...]'') = Inr [short_result]
   \<and> POST_graph_rag (parsing_runtime [short_result]) (search_taking 1200) (Some trip_query)
       = json_response 200
           [(''context'', JsonArr (map JsonStr
               (map (format_context (percent (parsing_runtime [short_result]))) [short_result]))),
            (''query'', JsonStr (the_string (query trip_query))),
            (''limit'', JsonNum (requested_limit trip_query))]"
proof -
  have l: "search_timeout_ms \<le> elapsed_ms \<lparr>elapsed_ms = 31000, ending = Closed (Some 0) (js ''[...]'') []\<rparr>"
    by (simp add: search_timeout_ms_def)
  have e: "elapsed_ms \<lparr>elapsed_ms = 1200, ending = Closed (Some 0) (js ''[...]'') []\<rparr> < search_timeout_ms"
    by (simp add: search_timeout_ms_def)
  have p: "parse_results (parsing_runtime [short_result]) (js ''[...]'') = Inr [short_result]"
    by (simp add: parsing_runtime_def)
  from retrieval_timeout [where search = "search_taking 31000" and req = trip_query
      and code = "Some 0" and out = "js ''[...]''" and err = "[]"
      and rt = "parsing_runtime [short_result]", OF trip_query_valid trip_query_run] l
  have a: "POST_graph_rag (parsing_runtime [short_result]) (search_taking 31000) (Some trip_query)
       = json_response 500 [(''error'', JsonStr (js ''Failed to retrieve chat context''))]"
    by simp
  from retrieval_timeout [where search = "search_taking 1200" and req = trip_query
      and rt = "parsing_runtime [short_result]" and out' = "js ''[...]''" and err' = "[]"
      and results = "[short_result]", OF trip_query_valid trip_query_run] e p
  have b: "POST_graph_rag (parsing_runtime [short_result]) (search_taking 1200) (Some trip_query)
       = json_response 200
           [(''context'', JsonArr (map JsonStr
               (map (format_context (percent (parsing_runtime [short_result]))) [short_result]))),
            (''query'', JsonStr (the_string (query trip_query))),
            (''limit'', JsonNum (requested_limit trip_query))]"
    by simp
  from trip_query_valid l a e p b show ?thesis by blast
qed

text \<open>
  Claim C2 as stated fails: a search that delivers three candidates after 31 seconds
  gives status 500 and none of them; and a search that takes 6 seconds, longer than any
  bound between 2 and 5 seconds, is not cut off. The timeout is 30000 ms.
\<close>

theorem retrieval_timeout_counterexample:
  "POST_graph_rag (parsing_runtime [short_result, short_result, short_result])
       (search_taking 31000) (Some trip_query)
     = json_response 500 [(''error'', JsonStr (js ''Failed to retrieve chat context''))]
   \<and> POST_graph_rag (parsing_runtime [short_result, short_result, short_result])
       (search_taking 6000) (Some trip_query)
     = json_response 200
         [(''context'', JsonArr [JsonStr (format_context id short_result),
                                 JsonStr (format_context id short_result),
                                 JsonStr (format_context id short_result)]),
          (''query'', JsonStr (js ''trip'')), (''limit'', JsonNum 5)]
   \<and> search_timeout_ms = 30000"
  by (simp add: example_search_late example_search_in_time search_timeout_ms_def)

section \<open>Formatting of retrieved items\<close>

lemma chat_search_results:
  assumes "ending run = Closed (Some 0) out err" and "parse_results rt out = Inr results"
  shows "chat_search rt run =
           Inr \<lparr>result_context = Some (map (format_context (percent rt)) results),
                result_error = None, result_metadata = None\<rparr>"
  using assms by (simp add: chat_search_def)

text \<open>
  Claim C5, as amended. The budget is 400 code units. A retrieved item whose content is
  longer is put into the prompt with its first 400 code units followed by the marker
  \<open>...\<close>; an item at or below the budget is put in unchanged, with no marker. In both
  cases the session title and the role are included in full. The formatted item does not
  depend on the session id, which is not part of it. In the chat route these formatted
  items are what the system prompt receives when the search returns results.
\<close>

theorem context_item_truncation:
  "content_budget = 400
   \<and> (content_budget < length (content r) \<longrightarrow>
        format_context pct r =
          js ''From conversation '' @ [0x22] @ session_title r @ [0x22] @ js '':'' @ [0x0A, 0x0A] @
          js ''Role: '' @ role r @ [0x0A] @
          js ''Content: '' @ take content_budget (content r) @ js ''...'' @ [0x0A, 0x0A] @
          js ''Relevance: '' @ pct (relevance_score r) @ js ''%''
        \<and> length (take content_budget (content r)) = content_budget)
   \<and> (length (content r) \<le> content_budget \<longrightarrow>
        format_context pct r =
          js ''From conversation '' @ [0x22] @ session_title r @ [0x22] @ js '':'' @ [0x0A, 0x0A] @
          js ''Role: '' @ role r @ [0x0A] @
          js ''Content: '' @ content r @ [0x0A, 0x0A] @
          js ''Relevance: '' @ pct (relevance_score r) @ js ''%'')
   \<and> format_context pct (r\<lparr>session_id := other\<rparr>) = format_context pct r
   \<and> (ending run = Closed (Some 0) out err \<and> parse_results rt out = Inr results
        \<and> results \<noteq> [] \<longrightarrow>
        enhancedSystemPrompt base (chat_search rt run)
          = with_context base (map (format_context (percent rt)) results))"
proof (intro conjI impI)
  show "content_budget = 400" by (simp add: content_budget_def)
next
  assume "content_budget < length (content r)"
  then show "format_context pct r =
          js ''From conversation '' @ [0x22] @ session_title r @ [0x22] @ js '':'' @ [0x0A, 0x0A] @
          js ''Role: '' @ role r @ [0x0A] @
          js ''Content: '' @ take content_budget (content r) @ js ''...'' @ [0x0A, 0x0A] @
          js ''Relevance: '' @ pct (relevance_score r) @ js ''%''"
    and "length (take content_budget (content r)) = content_budget"
    by (simp_all add: format_context_def)
next
  assume "length (content r) \<le> content_budget"
  then show "format_context pct r =
          js ''From conversation '' @ [0x22] @ session_title r @ [0x22] @ js '':'' @ [0x0A, 0x0A] @
          js ''Role: '' @ role r @ [0x0A] @
          js ''Content: '' @ content r @ [0x0A, 0x0A] @
          js ''Relevance: '' @ pct (relevance_score r) @ js ''%''"
    by (simp add: format_context_def)
next
  show "format_context pct (r\<lparr>session_id := other\<rparr>) = format_context pct r"
    by (simp add: format_context_def)
next
  assume a: "ending run = Closed (Some 0) out err \<and> parse_results rt out = Inr results
        \<and> results \<noteq> []"
  then have "chat_search rt run =
           Inr \<lparr>result_context = Some (map (format_context (percent rt)) results),
                result_error = None, result_metadata = None\<rparr>"
    by (intro chat_search_results) blast+
  with a show "enhancedSystemPrompt base (chat_search rt run)
          = with_context base (map (format_context (percent rt)) results)"
    by (simp add: enhancedSystemPrompt_def)
qed

lemma long_result_format:
  "format_context id long_result =
     js ''From conversation '' @ [0x22] @ js ''Trip planning'' @ [0x22] @ js '':'' @ [0x0A, 0x0A] @
     js ''Role: '' @ js ''user'' @ [0x0A] @
     js ''Content: '' @ replicate 400 0x61 @ js ''...'' @ [0x0A, 0x0A] @
     js ''Relevance: '' @ js ''87.5'' @ js ''%''"
  by (simp add: format_context_def long_result_def content_budget_def)

lemma hash_not_in_long_format: "0x23 \<notin> set (format_context id long_result)"
  by (simp add: long_result_format js_def)

lemma long_result_id_absent:
  "\<not> sublist (session_id long_result) (format_context id long_result)"
proof
  assume "sublist (session_id long_result) (format_context id long_result)"
  then have "set (session_id long_result) \<subseteq> set (format_context id long_result)"
    by (rule set_mono_sublist)
  moreover have "0x23 \<in> set (session_id long_result)"
    by (simp add: long_result_def js_def)
  ultimately show False using hash_not_in_long_format by blast
qed

theorem context_item_truncation_witness:
  "content_budget < length (content long_result)
   \<and> format_context id long_result =
       js ''From conversation '' @ [0x22] @ session_title long_result @ [0x22] @ js '':'' @
       [0x0A, 0x0A] @ js ''Role: '' @ role long_result @ [0x0A] @
       js ''Content: '' @ take content_budget (content long_result) @ js ''...'' @ [0x0A, 0x0A] @
       js ''Relevance: '' @ id (relevance_score long_result) @ js ''%''
   \<and> take content_budget (content long_result) = replicate 400 0x61
   \<and> length (content short_result) \<le> content_budget
   \<and> format_context id short_result =
       js ''From conversation '' @ [0x22] @ session_title short_result @ [0x22] @ js '':'' @
       [0x0A, 0x0A] @ js ''Role: '' @ role short_result @ [0x0A] @
       js ''Content: '' @ content short_result @ [0x0A, 0x0A] @
       js ''Relevance: '' @ id (relevance_score short_result) @ js ''%''
   \<and> ending \<lparr>elapsed_ms = 5, ending = Closed (Some 0) (js ''[...]'') []\<rparr>
       = Closed (Some 0) (js ''[...]'') []
   \<and> parse_results (parsing_runtime [short_result]) (js ''[...]'') = Inr [short_result]
   \<and> enhancedSystemPrompt (js ''Be brief.'')
         (chat_search (parsing_runtime [short_result])
            \<lparr>elapsed_ms = 5, ending = Closed (Some 0) (js ''[...]'') []\<rparr>)
       = with_context (js ''Be brief.'')
           (map (format_context (percent (parsing_runtime [short_result]))) [short_result])"
proof -
  have l: "content_budget < length (content long_result)"
    by (simp add: content_budget_def long_result_def)
  have t: "take content_budget (content long_result) = replicate 400 0x61"
    by (simp add: content_budget_def long_result_def)
  have s: "length (content short_result) \<le> content_budget"
    by (simp add: content_budget_def short_result_def js_def)
  have e: "ending \<lparr>elapsed_ms = 5, ending = Closed (Some 0) (js ''[...]'') []\<rparr>
       = Closed (Some 0) (js ''[...]'') []" by simp
  have p: "parse_results (parsing_runtime [short_result]) (js ''[...]'') = Inr [short_result]"
    by (simp add: parsing_runtime_def)
  from context_item_truncation [of long_result id] l
  have a: "format_context id long_result =
       js ''From conversation '' @ [0x22] @ session_title long_result @ [0x22] @ js '':'' @
       [0x0A, 0x0A] @ js ''Role: '' @ role long_result @ [0x0A] @
       js ''Content: '' @ take content_budget (content long_result) @ js ''...'' @ [0x0A, 0x0A] @
       js ''Relevance: '' @ id (relevance_score long_result) @ js ''%''"
    by blast
  from context_item_truncation
    [of short_result id _ "\<lparr>elapsed_ms = 5, ending = Closed (Some 0) (js ''[...]'') []\<rparr>"
        "js ''[...]''" "[]" "parsing_runtime [short_result]" "[short_result]" "js ''Be brief.''"]
    s e p
  have b: "format_context id short_result =
       js ''From conversation '' @ [0x22] @ session_title short_result @ [0x22] @ js '':'' @
       [0x0A, 0x0A] @ js ''Role: '' @ role short_result @ [0x0A] @
       js ''Content: '' @ content short_result @ [0x0A, 0x0A] @
       js ''Relevance: '' @ id (relevance_score short_result) @ js ''%''"
    and c: "enhancedSystemPrompt (js ''Be brief.'')
         (chat_search (parsing_runtime [short_result])
            \<lparr>elapsed_ms = 5, ending = Closed (Some 0) (js ''[...]'') []\<rparr>)
       = with_context (js ''Be brief.'')
           (map (format_context (percent (parsing_runtime [short_result]))) [short_result])"
    by blast+
  from l a t s b e p c show ?thesis by blast
qed

text \<open>
  Claim C5 as stated fails: for an item over the budget, the session id does not occur
  in the formatted item, and the response of the retrieval route holds only the
  formatted text, the query and the limit, so the id is no key of the response.
\<close>

theorem context_item_truncation_counterexample:
  "content_budget < length (content long_result)
   \<and> \<not> sublist (session_id long_result) (format_context id long_result)
   \<and> POST_graph_rag (parsing_runtime [long_result]) (search_taking 1200) (Some trip_query)
       = json_response 200
           [(''context'', JsonArr [JsonStr (format_context id long_result)]),
            (''query'', JsonStr (js ''trip'')), (''limit'', JsonNum 5)]"
proof (intro conjI)
  show "content_budget < length (content long_result)"
    by (simp add: content_budget_def long_result_def)
  show "\<not> sublist (session_id long_result) (format_context id long_result)"
    by (rule long_result_id_absent)
  show "POST_graph_rag (parsing_runtime [long_result]) (search_taking 1200) (Some trip_query)
       = json_response 200
           [(''context'', JsonArr [JsonStr (format_context id long_result)]),
            (''query'', JsonStr (js ''trip'')), (''limit'', JsonNum 5)]"
    using example_search_in_time [of 1200 "[long_result]"]
    by (simp add: search_timeout_ms_def)
qed

section \<open>The ingestion route\<close>

lemma runPythonScript_ingest_stderr:
  assumes "elapsed_ms run < ingest_timeout_ms"
    and "ending run = Closed code out err" and "code \<noteq> Some 0" and "err \<noteq> []"
  shows "runPythonScript_ingest parse run = Inr (Result (Some err))"
  using assms by (simp add: runPythonScript_ingest_def)

lemma runPythonScript_ingest_error_event:
  assumes "elapsed_ms run < ingest_timeout_ms" and "ending run = ErrorEvent msg"
  shows "runPythonScript_ingest parse run = Inr (Result (Some msg))"
  using assms by (simp add: runPythonScript_ingest_def)

lemma POST_ingest_script_error:
  assumes "validSessions chatSessions \<noteq> []" and "script_exists env" and "fs_failure env = None"
    and "runPythonScript_ingest (parse_output env) (ingest_run env) = Inr (Result (Some e))"
    and "e \<noteq> []"
  shows "POST_ingest env (Inr (Some chatSessions))
           = json_response 500 [(''error'', JsonStr (js ''Failed to ingest chat history'')),
                                (''details'', JsonStr e)]"
  using assms by (simp add: POST_ingest_def Let_def)

lemma valid_hello: "valid_message \<lparr>msg_role = Some (js ''user''), msg_content = Some (js ''hello'')\<rparr>"
  by (simp add: valid_message_def trim_def js_def is_js_whitespace_def)

lemma blank_invalid: "\<not> valid_message \<lparr>msg_role = Some (js ''user''), msg_content = Some (js ''   '')\<rparr>"
  by (simp add: valid_message_def trim_def js_def is_js_whitespace_def)

lemma validSessions_good: "validSessions [good_session] = [good_session]"
  by (simp add: good_session_def valid_hello)

lemma validSessions_append: "validSessions (xs @ ys) = validSessions xs @ validSessions ys"
  by (induction xs) (auto simp: Let_def split: option.splits)

lemma blank_not_valid: "blank_text m \<Longrightarrow> \<not> valid_message m"
  by (auto simp: blank_text_def valid_message_def split: option.splits)

lemma validSessions_blank:
  assumes "cs_messages s = Some msgs" and "\<forall>m\<in>set msgs. blank_text m"
  shows "validSessions [s] = []"
proof -
  from assms(2) have "filter valid_message msgs = []"
    by (auto simp: filter_empty_conv dest: blank_not_valid)
  with assms(1) show ?thesis by simp
qed

lemma validSessions_no_id:
  assumes "\<not> truthy_str (cs_id s) \<or> cs_messages s = None"
  shows "validSessions [s] = []"
  using assms by auto

lemma validSessions_drop:
  assumes "validSessions [s] = []"
  shows "validSessions (xs @ s # ys) = validSessions xs @ validSessions ys"
proof -
  have "validSessions (xs @ s # ys) = validSessions xs @ validSessions ([s] @ ys)"
    by (simp only: validSessions_append append_Cons append_Nil)
  also have "validSessions ([s] @ ys) = validSessions [s] @ validSessions ys"
    by (rule validSessions_append)
  finally show ?thesis using assms by simp
qed

lemma validSessions_members:
  "s' \<in> set (validSessions ss) \<Longrightarrow>
     truthy_str (cs_id s')
     \<and> (\<exists>msgs. cs_messages s' = Some msgs \<and> msgs \<noteq> [] \<and> (\<forall>m\<in>set msgs. valid_message m))"
proof (induction ss)
  case Nil
  then show ?case by simp
next
  case (Cons s ss)
  show ?case
  proof (cases "validSessions [s] = []")
    case True
    then have "validSessions (s # ss) = validSessions ss"
      using validSessions_drop [of s "[]" ss] by simp
    with Cons show ?thesis by simp
  next
    case False
    then obtain msgs where m: "cs_messages s = Some msgs" and t: "truthy_str (cs_id s)"
      and f: "filter valid_message msgs \<noteq> []"
      by (auto simp: Let_def split: option.splits if_splits)
    then have v: "validSessions (s # ss)
                = s\<lparr>cs_messages := Some (filter valid_message msgs)\<rparr> # validSessions ss"
      by (auto simp: Let_def)
    show ?thesis
    proof (cases "s' = s\<lparr>cs_messages := Some (filter valid_message msgs)\<rparr>")
      case True
      with t f show ?thesis by auto
    next
      case False
      with v Cons.prems have "s' \<in> set (validSessions ss)" by simp
      then show ?thesis by (rule Cons.IH)
    qed
  qed
qed

lemma length_validSessions: "length (validSessions ss) \<le> length ss"
  by (induction ss) (auto simp: Let_def split: option.splits)

lemma POST_ingest_ok:
  assumes "status (POST_ingest env (Inr (Some ss))) = 200"
  shows "POST_ingest env (Inr (Some ss)) =
           json_response 200
             [(''success'', JsonBool True),
              (''message'', JsonStr (js ''Chat history stored as JSON and embeddings generated successfully'')),
              (''processed_count'', JsonNum (int (length (validSessions ss)))),
              (''sessions_processed'', JsonNum (int (length ss)))]"
  using assms
  by (auto simp: POST_ingest_def json_response_def Let_def
           split: option.splits sum.splits if_splits ingest_result.splits)

lemma POST_ingest_ok_request:
  assumes "status (POST_ingest env request) = 200"
  shows "\<exists>ss. request = Inr (Some ss)"
  using assms
  by (cases request) (auto simp: POST_ingest_def json_response_def split: option.splits)

lemma POST_ingest_none_valid:
  assumes "validSessions ss = []"
  shows "POST_ingest env (Inr (Some ss)) =
     json_response 400
       [(''error'', JsonStr (js ''No valid chat history to ingest - please ensure chat sessions include their message arrays for proper persistence'')),
        (''details'', JsonStr (js ''All provided sessions contained empty or invalid message arrays'')),
        (''processed_count'', JsonNum 0),
        (''sessions_processed'', JsonNum (int (length ss)))]"
  using assms by (simp add: POST_ingest_def)

lemma POST_ingest_success:
  assumes "validSessions ss \<noteq> []" and "script_exists env" and "fs_failure env = None"
    and "runPythonScript_ingest (parse_output env) (ingest_run env) = Inr (Result None)"
  shows "POST_ingest env (Inr (Some ss)) =
           json_response 200
             [(''success'', JsonBool True),
              (''message'', JsonStr (js ''Chat history stored as JSON and embeddings generated successfully'')),
              (''processed_count'', JsonNum (int (length (validSessions ss)))),
              (''sessions_processed'', JsonNum (int (length ss)))]"
  using assms by (simp add: POST_ingest_def Let_def)

lemma working_ingest_run:
  "runPythonScript_ingest (parse_output working_ingest_env) (ingest_run working_ingest_env)
     = Inr (Result None)"
  by (simp add: working_ingest_env_def runPythonScript_ingest_def ingest_timeout_ms_def
      trim_def js_def is_js_whitespace_def)

lemma working_ingest_facts:
  "script_exists working_ingest_env" "fs_failure working_ingest_env = None"
  by (simp_all add: working_ingest_env_def)

lemma validSessions_blank_session: "validSessions [blank_session] = []"
  by (simp add: blank_session_def blank_invalid)

lemma validSessions_no_id_session: "validSessions [no_id_session] = []"
  by (simp add: no_id_session_def)

lemma validSessions_good_blank: "validSessions [good_session, blank_session] = [good_session]"
  using validSessions_append [of "[good_session]" "[blank_session]"]
  by (simp only: validSessions_good validSessions_blank_session append_Cons append_Nil)

lemma validSessions_good_no_id: "validSessions [good_session, no_id_session] = [good_session]"
  using validSessions_append [of "[good_session]" "[no_id_session]"]
  by (simp only: validSessions_good validSessions_no_id_session append_Cons append_Nil)

lemma example_ingest_good_blank:
  "POST_ingest working_ingest_env (Inr (Some [good_session, blank_session])) =
     json_response 200
           [(''success'', JsonBool True),
            (''message'', JsonStr (js ''Chat history stored as JSON and embeddings generated successfully'')),
            (''processed_count'', JsonNum 1),
            (''sessions_processed'', JsonNum 2)]"
proof -
  have "validSessions [good_session, blank_session] \<noteq> []"
    by (simp only: validSessions_good_blank) simp
  from POST_ingest_success [OF this working_ingest_facts working_ingest_run]
  show ?thesis by (simp only: validSessions_good_blank) simp
qed

lemma example_ingest_good_no_id:
  "POST_ingest working_ingest_env (Inr (Some [good_session, no_id_session])) =
     json_response 200
           [(''success'', JsonBool True),
            (''message'', JsonStr (js ''Chat history stored as JSON and embeddings generated successfully'')),
            (''processed_count'', JsonNum 1),
            (''sessions_processed'', JsonNum 2)]"
proof -
  have "validSessions [good_session, no_id_session] \<noteq> []"
    by (simp only: validSessions_good_no_id) simp
  from POST_ingest_success [OF this working_ingest_facts working_ingest_run]
  show ?thesis by (simp only: validSessions_good_no_id) simp
qed

text \<open>
  Claim C3, as amended. Within each session the ingestion route removes every message
  whose text is empty or whitespace-only; a session all of whose messages are such is
  dropped, the other sessions are processed as without it, and it is not counted in
  \<open>processed_count\<close>. The report of a successful call has the fields \<open>success\<close>,
  \<open>message\<close>, \<open>processed_count\<close> (the sessions kept) and \<open>sessions_processed\<close> (the
  sessions submitted); the number of dropped sessions is their difference.
\<close>

theorem blank_rows_dropped:
  "(cs_messages s = Some msgs \<and> (\<forall>m\<in>set msgs. blank_text m) \<longrightarrow>
      validSessions (xs @ s # ys) = validSessions xs @ validSessions ys)
   \<and> (s' \<in> set (validSessions ss) \<longrightarrow>
      (\<exists>kept. cs_messages s' = Some kept \<and> kept \<noteq> [] \<and> (\<forall>m\<in>set kept. \<not> blank_text m)))
   \<and> length (validSessions ss) \<le> length ss
   \<and> (status (POST_ingest env (Inr (Some ss))) = 200 \<longrightarrow>
      POST_ingest env (Inr (Some ss)) =
        json_response 200
          [(''success'', JsonBool True),
           (''message'', JsonStr (js ''Chat history stored as JSON and embeddings generated successfully'')),
           (''processed_count'', JsonNum (int (length (validSessions ss)))),
           (''sessions_processed'', JsonNum (int (length ss)))])"
proof (intro conjI impI)
  assume "cs_messages s = Some msgs \<and> (\<forall>m\<in>set msgs. blank_text m)"
  then have "validSessions [s] = []" by (intro validSessions_blank) blast+
  then show "validSessions (xs @ s # ys) = validSessions xs @ validSessions ys"
    by (rule validSessions_drop)
next
  assume "s' \<in> set (validSessions ss)"
  from validSessions_members [OF this]
  show "\<exists>kept. cs_messages s' = Some kept \<and> kept \<noteq> [] \<and> (\<forall>m\<in>set kept. \<not> blank_text m)"
    using blank_not_valid by blast
next
  show "length (validSessions ss) \<le> length ss" by (rule length_validSessions)
next
  assume "status (POST_ingest env (Inr (Some ss))) = 200"
  then show "POST_ingest env (Inr (Some ss)) =
        json_response 200
          [(''success'', JsonBool True),
           (''message'', JsonStr (js ''Chat history stored as JSON and embeddings generated successfully'')),
           (''processed_count'', JsonNum (int (length (validSessions ss)))),
           (''sessions_processed'', JsonNum (int (length ss)))]"
    by (rule POST_ingest_ok)
qed

theorem blank_rows_dropped_witness:
  "cs_messages blank_session
     = Some [\<lparr>msg_role = Some (js ''user''), msg_content = Some (js ''   '')\<rparr>]
   \<and> blank_text \<lparr>msg_role = Some (js ''user''), msg_content = Some (js ''   '')\<rparr>
   \<and> validSessions ([good_session] @ blank_session # [good_session])
       = validSessions [good_session] @ validSessions [good_session]
   \<and> good_session \<in> set (validSessions [good_session, blank_session])
   \<and> (\<exists>kept. cs_messages good_session = Some kept \<and> kept \<noteq> []
         \<and> (\<forall>m\<in>set kept. \<not> blank_text m))
   \<and> status (POST_ingest working_ingest_env (Inr (Some [good_session, blank_session]))) = 200
   \<and> POST_ingest working_ingest_env (Inr (Some [good_session, blank_session])) =
        json_response 200
          [(''success'', JsonBool True),
           (''message'', JsonStr (js ''Chat history stored as JSON and embeddings generated successfully'')),
           (''processed_count'', JsonNum (int (length (validSessions [good_session, blank_session])))),
           (''sessions_processed'', JsonNum (int (length [good_session, blank_session])))]"
proof -
  have m: "cs_messages blank_session
     = Some [\<lparr>msg_role = Some (js ''user''), msg_content = Some (js ''   '')\<rparr>]"
    by (simp add: blank_session_def)
  have b: "blank_text \<lparr>msg_role = Some (js ''user''), msg_content = Some (js ''   '')\<rparr>"
    by (simp add: blank_text_def trim_def js_def is_js_whitespace_def)
  then have a: "\<forall>m\<in>set [\<lparr>msg_role = Some (js ''user''), msg_content = Some (js ''   '')\<rparr>].
                 blank_text m" by simp
  have g: "good_session \<in> set (validSessions [good_session, blank_session])"
    by (simp only: validSessions_good_blank) simp
  have st: "status (POST_ingest working_ingest_env (Inr (Some [good_session, blank_session]))) = 200"
    by (simp only: example_ingest_good_blank) (simp add: json_response_def)
  note t = blank_rows_dropped
    [of blank_session "[\<lparr>msg_role = Some (js ''user''), msg_content = Some (js ''   '')\<rparr>]"
        "[good_session]" "[good_session]" good_session "[good_session, blank_session]"
        working_ingest_env]
  from t m a have 1: "validSessions ([good_session] @ blank_session # [good_session])
       = validSessions [good_session] @ validSessions [good_session]" by blast
  from t g have 2: "\<exists>kept. cs_messages good_session = Some kept \<and> kept \<noteq> []
         \<and> (\<forall>m\<in>set kept. \<not> blank_text m)" by blast
  from t st have 3: "POST_ingest working_ingest_env (Inr (Some [good_session, blank_session])) =
        json_response 200
          [(''success'', JsonBool True),
           (''message'', JsonStr (js ''Chat history stored as JSON and embeddings generated successfully'')),
           (''processed_count'', JsonNum (int (length (validSessions [good_session, blank_session])))),
           (''sessions_processed'', JsonNum (int (length [good_session, blank_session])))]"
    by blast
  from m b 1 g 2 st 3 show ?thesis by blast
qed

text \<open>
  Claim C3 as stated fails: a batch of one good session and one session with only
  whitespace text gives a report with no \<open>skipped\<close> field, and a batch holding only
  the whitespace session is answered with status 400 instead of a report.
\<close>

theorem blank_rows_dropped_counterexample:
  "POST_ingest working_ingest_env (Inr (Some [good_session, blank_session])) =
     json_response 200
           [(''success'', JsonBool True),
            (''message'', JsonStr (js ''Chat history stored as JSON and embeddings generated successfully'')),
            (''processed_count'', JsonNum 1),
            (''sessions_processed'', JsonNum 2)]
   \<and> ''skipped'' \<notin> set (json_keys (body
         (POST_ingest working_ingest_env (Inr (Some [good_session, blank_session])))))
   \<and> POST_ingest working_ingest_env (Inr (Some [blank_session])) =
     json_response 400
           [(''error'', JsonStr (js ''No valid chat history to ingest - please ensure chat sessions include their message arrays for proper persistence'')),
            (''details'', JsonStr (js ''All provided sessions contained empty or invalid message arrays'')),
            (''processed_count'', JsonNum 0),
            (''sessions_processed'', JsonNum 1)]"
proof (intro conjI)
  show "POST_ingest working_ingest_env (Inr (Some [good_session, blank_session])) =
     json_response 200
           [(''success'', JsonBool True),
            (''message'', JsonStr (js ''Chat history stored as JSON and embeddings generated successfully'')),
            (''processed_count'', JsonNum 1),
            (''sessions_processed'', JsonNum 2)]"
    by (rule example_ingest_good_blank)
  show "''skipped'' \<notin> set (json_keys (body
         (POST_ingest working_ingest_env (Inr (Some [good_session, blank_session])))))"
    by (simp only: example_ingest_good_blank) (simp add: json_response_def)
  show "POST_ingest working_ingest_env (Inr (Some [blank_session])) =
     json_response 400
           [(''error'', JsonStr (js ''No valid chat history to ingest - please ensure chat sessions include their message arrays for proper persistence'')),
            (''details'', JsonStr (js ''All provided sessions contained empty or invalid message arrays'')),
            (''processed_count'', JsonNum 0),
            (''sessions_processed'', JsonNum 1)]"
    using POST_ingest_none_valid [OF validSessions_blank_session, of working_ingest_env] by simp
qed

text \<open>
  Claim C4, as amended. A successful ingestion call returns a report with exactly the
  fields \<open>success\<close>, \<open>message\<close>, \<open>processed_count\<close> and \<open>sessions_processed\<close>. A
  session without an id or without a messages array is dropped and the other sessions
  are processed as without it; every session kept has an id and messages. When no
  session is kept the call is answered with status 400 and \<open>processed_count\<close> 0.
\<close>

theorem rows_missing_fields:
  "(\<not> truthy_str (cs_id s) \<or> cs_messages s = None \<longrightarrow>
      validSessions (xs @ s # ys) = validSessions xs @ validSessions ys)
   \<and> (s' \<in> set (validSessions ss) \<longrightarrow> truthy_str (cs_id s') \<and> cs_messages s' \<noteq> None)
   \<and> (status (POST_ingest env request) = 200 \<longrightarrow>
      json_keys (body (POST_ingest env request))
        = [''success'', ''message'', ''processed_count'', ''sessions_processed''])
   \<and> (validSessions ss = [] \<longrightarrow>
      POST_ingest env (Inr (Some ss)) =
        json_response 400
          [(''error'', JsonStr (js ''No valid chat history to ingest - please ensure chat sessions include their message arrays for proper persistence'')),
           (''details'', JsonStr (js ''All provided sessions contained empty or invalid message arrays'')),
           (''processed_count'', JsonNum 0),
           (''sessions_processed'', JsonNum (int (length ss)))])"
proof (intro conjI impI)
  assume "\<not> truthy_str (cs_id s) \<or> cs_messages s = None"
  then have "validSessions [s] = []" by (rule validSessions_no_id)
  then show "validSessions (xs @ s # ys) = validSessions xs @ validSessions ys"
    by (rule validSessions_drop)
next
  assume "s' \<in> set (validSessions ss)"
  from validSessions_members [OF this]
  show "truthy_str (cs_id s')" and "cs_messages s' \<noteq> None" by auto
next
  assume a: "status (POST_ingest env request) = 200"
  then obtain batch where r: "request = Inr (Some batch)"
    using POST_ingest_ok_request by blast
  with a have "status (POST_ingest env (Inr (Some batch))) = 200" by simp
  from POST_ingest_ok [OF this] r
  show "json_keys (body (POST_ingest env request))
        = [''success'', ''message'', ''processed_count'', ''sessions_processed'']"
    by (simp add: json_response_def)
next
  assume "validSessions ss = []"
  then show "POST_ingest env (Inr (Some ss)) =
        json_response 400
          [(''error'', JsonStr (js ''No valid chat history to ingest - please ensure chat sessions include their message arrays for proper persistence'')),
           (''details'', JsonStr (js ''All provided sessions contained empty or invalid message arrays'')),
           (''processed_count'', JsonNum 0),
           (''sessions_processed'', JsonNum (int (length ss)))]"
    by (rule POST_ingest_none_valid)
qed

theorem rows_missing_fields_witness:
  "cs_id no_id_session = None
   \<and> validSessions ([good_session] @ no_id_session # [good_session])
       = validSessions [good_session] @ validSessions [good_session]
   \<and> good_session \<in> set (validSessions [good_session, no_id_session])
   \<and> truthy_str (cs_id good_session) \<and> cs_messages good_session \<noteq> None
   \<and> status (POST_ingest working_ingest_env (Inr (Some [good_session, no_id_session]))) = 200
   \<and> json_keys (body (POST_ingest working_ingest_env (Inr (Some [good_session, no_id_session]))))
       = [''success'', ''message'', ''processed_count'', ''sessions_processed'']
   \<and> validSessions [no_id_session] = []
   \<and> POST_ingest working_ingest_env (Inr (Some [no_id_session])) =
        json_response 400
          [(''error'', JsonStr (js ''No valid chat history to ingest - please ensure chat sessions include their message arrays for proper persistence'')),
           (''details'', JsonStr (js ''All provided sessions contained empty or invalid message arrays'')),
           (''processed_count'', JsonNum 0),
           (''sessions_processed'', JsonNum (int (length [no_id_session])))]"
proof -
  have i: "cs_id no_id_session = None" by (simp add: no_id_session_def)
  then have h: "\<not> truthy_str (cs_id no_id_session) \<or> cs_messages no_id_session = None"
    by simp
  have g: "good_session \<in> set (validSessions [good_session, no_id_session])"
    by (simp only: validSessions_good_no_id) simp
  have st: "status (POST_ingest working_ingest_env (Inr (Some [good_session, no_id_session]))) = 200"
    by (simp only: example_ingest_good_no_id) (simp add: json_response_def)
  note v = validSessions_no_id_session
  note t1 = rows_missing_fields
    [of no_id_session "[good_session]" "[good_session]" good_session
        "[good_session, no_id_session]" working_ingest_env
        "Inr (Some [good_session, no_id_session])"]
  note t2 = rows_missing_fields
    [of no_id_session "[good_session]" "[good_session]" good_session
        "[no_id_session]" working_ingest_env
        "Inr (Some [good_session, no_id_session])"]
  from t1 h have 1: "validSessions ([good_session] @ no_id_session # [good_session])
       = validSessions [good_session] @ validSessions [good_session]" by blast
  from t1 g have 2: "truthy_str (cs_id good_session) \<and> cs_messages good_session \<noteq> None"
    by blast
  from t1 st have 3: "json_keys (body (POST_ingest working_ingest_env
         (Inr (Some [good_session, no_id_session]))))
       = [''success'', ''message'', ''processed_count'', ''sessions_processed'']" by blast
  from t2 v have 4: "POST_ingest working_ingest_env (Inr (Some [no_id_session])) =
        json_response 400
          [(''error'', JsonStr (js ''No valid chat history to ingest - please ensure chat sessions include their message arrays for proper persistence'')),
           (''details'', JsonStr (js ''All provided sessions contained empty or invalid message arrays'')),
           (''processed_count'', JsonNum 0),
           (''sessions_processed'', JsonNum (int (length [no_id_session])))]" by blast
  from i 1 g 2 st 3 v 4 show ?thesis by blast
qed

text \<open>
  Claim C4 as stated fails: a batch of one good session and one session without an id
  gives a report that has neither a \<open>skipped\<close> nor an \<open>errors\<close> field; the session
  without an id is recorded nowhere in it.
\<close>

theorem rows_missing_fields_counterexample:
  "cs_id no_id_session = None
   \<and> POST_ingest working_ingest_env (Inr (Some [good_session, no_id_session])) =
     json_response 200
           [(''success'', JsonBool True),
            (''message'', JsonStr (js ''Chat history stored as JSON and embeddings generated successfully'')),
            (''processed_count'', JsonNum 1),
            (''sessions_processed'', JsonNum 2)]
   \<and> ''errors'' \<notin> set (json_keys (body
         (POST_ingest working_ingest_env (Inr (Some [good_session, no_id_session])))))
   \<and> ''skipped'' \<notin> set (json_keys (body
         (POST_ingest working_ingest_env (Inr (Some [good_session, no_id_session])))))"
proof (intro conjI)
  show "cs_id no_id_session = None" by (simp add: no_id_session_def)
  show "POST_ingest working_ingest_env (Inr (Some [good_session, no_id_session])) =
     json_response 200
           [(''success'', JsonBool True),
            (''message'', JsonStr (js ''Chat history stored as JSON and embeddings generated successfully'')),
            (''processed_count'', JsonNum 1),
            (''sessions_processed'', JsonNum 2)]"
    by (rule example_ingest_good_no_id)
  show "''errors'' \<notin> set (json_keys (body
         (POST_ingest working_ingest_env (Inr (Some [good_session, no_id_session])))))"
    by (simp only: example_ingest_good_no_id) (simp add: json_response_def)
  show "''skipped'' \<notin> set (json_keys (body
         (POST_ingest working_ingest_env (Inr (Some [good_session, no_id_session])))))"
    by (simp only: example_ingest_good_no_id) (simp add: json_response_def)
qed

section \<open>Errors surfaced to the caller\<close>

lemma POST_graph_rag_error_bodies:
  "status (POST_graph_rag rt search request) \<noteq> 200 \<Longrightarrow>
     body (POST_graph_rag rt search request)
       = JsonObj [(''error'', JsonStr (js ''Internal server error''))]
   \<or> body (POST_graph_rag rt search request)
       = JsonObj [(''error'', JsonStr (js ''Query is required and must be a string''))]
   \<or> body (POST_graph_rag rt search request)
       = JsonObj [(''error'', JsonStr (js ''Failed to retrieve chat context''))]"
  by (auto simp: POST_graph_rag_def json_response_def Let_def
           split: option.splits sum.splits if_splits)

lemma failed_with_code_nonempty: "failed_with_code code out \<noteq> []"
  by (simp add: failed_with_code_def)

lemma runPythonScript_spawn_throws:
  "spawn_throws (ending run) \<Longrightarrow> \<exists>e. runPythonScript rt run = Inl e"
  by (cases "ending run") (simp_all add: runPythonScript_def)

lemma runPythonScript_fails:
  assumes "retrieval_fails rt run" and "\<not> spawn_throws (ending run)"
  shows "\<exists>e. runPythonScript rt run = Inr (script_error e) \<and> e \<noteq> []"
proof (cases "ending run")
  case (SpawnThrows e)
  with assms(2) show ?thesis by simp
next
  case (ErrorEvent msg)
  with assms(1) show ?thesis
    by (auto simp: retrieval_fails_def runPythonScript_def)
next
  case (Closed code out err)
  with assms(1) show ?thesis
    by (auto simp: retrieval_fails_def runPythonScript_def failed_with_code_nonempty
             split: sum.splits)
qed

lemma POST_graph_rag_fails:
  assumes "\<not> falsy (query req)" and "is_string (query req)"
    and "retrieval_fails rt (search (the_string (query req)) (requested_limit req))"
  shows "POST_graph_rag rt search (Some req) =
           json_response 500
             [(''error'', JsonStr
                (if spawn_throws (ending (search (the_string (query req)) (requested_limit req)))
                 then js ''Internal server error''
                 else js ''Failed to retrieve chat context''))]"
proof (cases "spawn_throws (ending (search (the_string (query req)) (requested_limit req)))")
  case True
  from runPythonScript_spawn_throws [OF this, of rt] True show ?thesis
    by (auto simp: POST_graph_rag_valid [OF assms(1,2)])
next
  case False
  from runPythonScript_fails [OF assms(3) False] False show ?thesis
    by (auto simp: POST_graph_rag_valid [OF assms(1,2)] script_error_def)
qed

lemma runPythonScript_ingest_nonzero:
  assumes "elapsed_ms run < ingest_timeout_ms"
    and "ending run = Closed code out err" and "code \<noteq> Some 0"
  shows "runPythonScript_ingest parse run
           = Inr (Result (Some (if err \<noteq> [] then err else failed_with_code code out)))"
  using assms by (simp add: runPythonScript_ingest_def)

lemma runPythonScript_ingest_timeout:
  assumes "ingest_timeout_ms \<le> elapsed_ms run" and "\<not> spawn_throws (ending run)"
  shows "runPythonScript_ingest parse run
           = Inr (Result (Some (js ''Python script timed out after 60 seconds'')))"
  using assms by (cases "ending run") (simp_all add: runPythonScript_ingest_def)

lemma runPythonScript_ingest_json_error:
  assumes "elapsed_ms run < ingest_timeout_ms"
    and "ending run = Closed (Some 0) out err" and "trim out \<noteq> []"
    and "parse (trim out) = JsonWithError (Some e)"
  shows "runPythonScript_ingest parse run = Inr (Result (Some e))"
  using assms by (simp add: runPythonScript_ingest_def)

lemma POST_ingest_fs_failure:
  assumes "validSessions ss \<noteq> []" and "script_exists env" and "fs_failure env = Some e"
  shows "POST_ingest env (Inr (Some ss))
           = json_response 500 [(''error'', JsonStr (js ''Failed to process chat sessions'')),
                                (''details'', JsonStr e)]"
  using assms by (simp add: POST_ingest_def Let_def)

lemma POST_ingest_spawn_throws:
  assumes "validSessions ss \<noteq> []" and "script_exists env" and "fs_failure env = None"
    and "ending (ingest_run env) = SpawnThrows e"
  shows "POST_ingest env (Inr (Some ss))
           = json_response 500 [(''error'', JsonStr (js ''Failed to process chat sessions'')),
                                (''details'', JsonStr e)]"
  using assms by (simp add: POST_ingest_def Let_def runPythonScript_ingest_def)

text \<open>
  Claim C7, as amended. Retrieval: for a request with a valid query whose search fails
  (\<open>spawn\<close> throws, the 30 s timer comes first, the error event comes with a message,
  the exit code is not 0, or the output does not parse), the route answers status 500
  with a JSON object holding one fixed message, \<open>Internal server error\<close> when \<open>spawn\<close>
  throws and \<open>Failed to retrieve chat context\<close> otherwise; nothing of the subprocess's
  error text is in it, and every answer of this route other than 200 has one of three
  fixed bodies. Ingestion: for a batch with a valid session and the script present, a
  failure is answered with status 500 and a JSON object of a fixed message and a
  \<open>details\<close> field, and \<open>details\<close> is raw text of the failure: the text of the exception
  when handling the temporary file or \<open>spawn\<close> throws; the fixed text about 60 seconds
  when the timer comes first; within that time, the message of the error event if it is
  not empty, the subprocess's stderr after a non-zero exit if it is not empty and
  otherwise the text naming the exit code and the stdout, and after exit code 0 the
  non-empty \<open>error\<close> property of JSON output. Neither route attaches an operation or an
  id.
\<close>

theorem error_surfacing:
  "(\<not> falsy (query req) \<and> is_string (query req)
        \<and> retrieval_fails rt (search (the_string (query req)) (requested_limit req)) \<longrightarrow>
      POST_graph_rag rt search (Some req) =
        json_response 500
          [(''error'', JsonStr
             (if spawn_throws (ending (search (the_string (query req)) (requested_limit req)))
              then js ''Internal server error''
              else js ''Failed to retrieve chat context''))])
   \<and> (status (POST_graph_rag rt search request) \<noteq> 200 \<longrightarrow>
       body (POST_graph_rag rt search request)
         = JsonObj [(''error'', JsonStr (js ''Internal server error''))]
     \<or> body (POST_graph_rag rt search request)
         = JsonObj [(''error'', JsonStr (js ''Query is required and must be a string''))]
     \<or> body (POST_graph_rag rt search request)
         = JsonObj [(''error'', JsonStr (js ''Failed to retrieve chat context''))])
   \<and> (validSessions ss \<noteq> [] \<and> script_exists env \<and> fs_failure env = Some fsError \<longrightarrow>
      POST_ingest env (Inr (Some ss))
        = json_response 500 [(''error'', JsonStr (js ''Failed to process chat sessions'')),
                             (''details'', JsonStr fsError)])
   \<and> (validSessions ss \<noteq> [] \<and> script_exists env \<and> fs_failure env = None
        \<and> ending (ingest_run env) = SpawnThrows thrown \<longrightarrow>
      POST_ingest env (Inr (Some ss))
        = json_response 500 [(''error'', JsonStr (js ''Failed to process chat sessions'')),
                             (''details'', JsonStr thrown)])
   \<and> (validSessions ss \<noteq> [] \<and> script_exists env \<and> fs_failure env = None
        \<and> ingest_timeout_ms \<le> elapsed_ms (ingest_run env)
        \<and> \<not> spawn_throws (ending (ingest_run env)) \<longrightarrow>
      POST_ingest env (Inr (Some ss))
        = json_response 500 [(''error'', JsonStr (js ''Failed to ingest chat history'')),
                             (''details'', JsonStr (js ''Python script timed out after 60 seconds''))])
   \<and> (validSessions ss \<noteq> [] \<and> script_exists env \<and> fs_failure env = None
        \<and> elapsed_ms (ingest_run env) < ingest_timeout_ms
        \<and> ending (ingest_run env) = ErrorEvent msg \<and> msg \<noteq> [] \<longrightarrow>
      POST_ingest env (Inr (Some ss))
        = json_response 500 [(''error'', JsonStr (js ''Failed to ingest chat history'')),
                             (''details'', JsonStr msg)])
   \<and> (validSessions ss \<noteq> [] \<and> script_exists env \<and> fs_failure env = None
        \<and> elapsed_ms (ingest_run env) < ingest_timeout_ms
        \<and> ending (ingest_run env) = Closed code out err \<and> code \<noteq> Some 0 \<longrightarrow>
      POST_ingest env (Inr (Some ss))
        = json_response 500 [(''error'', JsonStr (js ''Failed to ingest chat history'')),
                             (''details'', JsonStr (if err \<noteq> [] then err else failed_with_code code out))])
   \<and> (validSessions ss \<noteq> [] \<and> script_exists env \<and> fs_failure env = None
        \<and> elapsed_ms (ingest_run env) < ingest_timeout_ms
        \<and> ending (ingest_run env) = Closed (Some 0) out' err' \<and> trim out' \<noteq> []
        \<and> parse_output env (trim out') = JsonWithError (Some reported) \<and> reported \<noteq> [] \<longrightarrow>
      POST_ingest env (Inr (Some ss))
        = json_response 500 [(''error'', JsonStr (js ''Failed to ingest chat history'')),
                             (''details'', JsonStr reported)])"
proof (intro conjI impI)
  assume "\<not> falsy (query req) \<and> is_string (query req)
        \<and> retrieval_fails rt (search (the_string (query req)) (requested_limit req))"
  then show "POST_graph_rag rt search (Some req) =
        json_response 500
          [(''error'', JsonStr
             (if spawn_throws (ending (search (the_string (query req)) (requested_limit req)))
              then js ''Internal server error''
              else js ''Failed to retrieve chat context''))]"
    by (intro POST_graph_rag_fails) blast+
next
  assume "status (POST_graph_rag rt search request) \<noteq> 200"
  then show "body (POST_graph_rag rt search request)
         = JsonObj [(''error'', JsonStr (js ''Internal server error''))]
     \<or> body (POST_graph_rag rt search request)
         = JsonObj [(''error'', JsonStr (js ''Query is required and must be a string''))]
     \<or> body (POST_graph_rag rt search request)
         = JsonObj [(''error'', JsonStr (js ''Failed to retrieve chat context''))]"
    by (rule POST_graph_rag_error_bodies)
next
  assume a: "validSessions ss \<noteq> [] \<and> script_exists env \<and> fs_failure env = Some fsError"
  then show "POST_ingest env (Inr (Some ss))
        = json_response 500 [(''error'', JsonStr (js ''Failed to process chat sessions'')),
                             (''details'', JsonStr fsError)]"
    by (intro POST_ingest_fs_failure) blast+
next
  assume a: "validSessions ss \<noteq> [] \<and> script_exists env \<and> fs_failure env = None
        \<and> ending (ingest_run env) = SpawnThrows thrown"
  then show "POST_ingest env (Inr (Some ss))
        = json_response 500 [(''error'', JsonStr (js ''Failed to process chat sessions'')),
                             (''details'', JsonStr thrown)]"
    by (intro POST_ingest_spawn_throws) blast+
next
  assume a: "validSessions ss \<noteq> [] \<and> script_exists env \<and> fs_failure env = None
        \<and> ingest_timeout_ms \<le> elapsed_ms (ingest_run env)
        \<and> \<not> spawn_throws (ending (ingest_run env))"
  then have r: "runPythonScript_ingest (parse_output env) (ingest_run env)
          = Inr (Result (Some (js ''Python script timed out after 60 seconds'')))"
    by (intro runPythonScript_ingest_timeout) blast+
  have n: "js ''Python script timed out after 60 seconds'' \<noteq> []" by simp
  from a have v: "validSessions ss \<noteq> []" and x: "script_exists env"
    and f: "fs_failure env = None" by blast+
  show "POST_ingest env (Inr (Some ss))
        = json_response 500 [(''error'', JsonStr (js ''Failed to ingest chat history'')),
                             (''details'', JsonStr (js ''Python script timed out after 60 seconds''))]"
    by (rule POST_ingest_script_error [OF v x f r n])
next
  assume a: "validSessions ss \<noteq> [] \<and> script_exists env \<and> fs_failure env = None
        \<and> elapsed_ms (ingest_run env) < ingest_timeout_ms
        \<and> ending (ingest_run env) = ErrorEvent msg \<and> msg \<noteq> []"
  then have r: "runPythonScript_ingest (parse_output env) (ingest_run env) = Inr (Result (Some msg))"
    by (intro runPythonScript_ingest_error_event) blast+
  have n: "msg \<noteq> []" using a by blast
  from a have v: "validSessions ss \<noteq> []" and x: "script_exists env"
    and f: "fs_failure env = None" by blast+
  show "POST_ingest env (Inr (Some ss))
        = json_response 500 [(''error'', JsonStr (js ''Failed to ingest chat history'')),
                             (''details'', JsonStr msg)]"
    by (rule POST_ingest_script_error [OF v x f r n])
next
  assume a: "validSessions ss \<noteq> [] \<and> script_exists env \<and> fs_failure env = None
        \<and> elapsed_ms (ingest_run env) < ingest_timeout_ms
        \<and> ending (ingest_run env) = Closed code out err \<and> code \<noteq> Some 0"
  then have r: "runPythonScript_ingest (parse_output env) (ingest_run env)
          = Inr (Result (Some (if err \<noteq> [] then err else failed_with_code code out)))"
    by (intro runPythonScript_ingest_nonzero) blast+
  have n: "(if err \<noteq> [] then err else failed_with_code code out) \<noteq> []"
    by (simp add: failed_with_code_nonempty)
  from a have v: "validSessions ss \<noteq> []" and x: "script_exists env"
    and f: "fs_failure env = None" by blast+
  show "POST_ingest env (Inr (Some ss))
        = json_response 500 [(''error'', JsonStr (js ''Failed to ingest chat history'')),
                             (''details'', JsonStr (if err \<noteq> [] then err else failed_with_code code out))]"
    by (rule POST_ingest_script_error [OF v x f r n])
next
  assume a: "validSessions ss \<noteq> [] \<and> script_exists env \<and> fs_failure env = None
        \<and> elapsed_ms (ingest_run env) < ingest_timeout_ms
        \<and> ending (ingest_run env) = Closed (Some 0) out' err' \<and> trim out' \<noteq> []
        \<and> parse_output env (trim out') = JsonWithError (Some reported) \<and> reported \<noteq> []"
  then have r: "runPythonScript_ingest (parse_output env) (ingest_run env) = Inr (Result (Some reported))"
    by (intro runPythonScript_ingest_json_error [where out = out' and err = err']) blast+
  have n: "reported \<noteq> []" using a by blast
  from a have v: "validSessions ss \<noteq> []" and x: "script_exists env"
    and f: "fs_failure env = None" by blast+
  show "POST_ingest env (Inr (Some ss))
        = json_response 500 [(''error'', JsonStr (js ''Failed to ingest chat history'')),
                             (''details'', JsonStr reported)]"
    by (rule POST_ingest_script_error [OF v x f r n])
qed

lemma failing_ingest_run:
  "runPythonScript_ingest (parse_output failing_ingest_env) (ingest_run failing_ingest_env)
     = Inr (Result (Some (js ''Traceback (most recent call last): ...'')))"
  by (simp add: failing_ingest_env_def failing_search_def runPythonScript_ingest_def
      ingest_timeout_ms_def)

lemma example_failing_ingest:
  "POST_ingest failing_ingest_env (Inr (Some [good_session]))
     = json_response 500 [(''error'', JsonStr (js ''Failed to ingest chat history'')),
                          (''details'', JsonStr (js ''Traceback (most recent call last): ...''))]"
proof (rule POST_ingest_script_error [OF _ _ _ failing_ingest_run])
  show "validSessions [good_session] \<noteq> []" by (simp only: validSessions_good) simp
  show "script_exists failing_ingest_env" by (simp add: failing_ingest_env_def)
  show "fs_failure failing_ingest_env = None" by (simp add: failing_ingest_env_def)
  show "js ''Traceback (most recent call last): ...'' \<noteq> []" by simp
qed

text \<open>
  Claim C7 as stated fails: when the ingestion script exits with code 1 and a Python
  traceback on stderr, the caller receives that traceback in \<open>details\<close>.
\<close>

theorem error_surfacing_counterexample:
  "ending (ingest_run failing_ingest_env)
     = Closed (Some 1) [] (js ''Traceback (most recent call last): ...'')
   \<and> POST_ingest failing_ingest_env (Inr (Some [good_session]))
     = json_response 500 [(''error'', JsonStr (js ''Failed to ingest chat history'')),
                          (''details'', JsonStr (js ''Traceback (most recent call last): ...''))]"
proof
  show "ending (ingest_run failing_ingest_env)
     = Closed (Some 1) [] (js ''Traceback (most recent call last): ...'')"
    by (simp add: failing_ingest_env_def failing_search_def)
  show "POST_ingest failing_ingest_env (Inr (Some [good_session]))
     = json_response 500 [(''error'', JsonStr (js ''Failed to ingest chat history'')),
                          (''details'', JsonStr (js ''Traceback (most recent call last): ...''))]"
    by (rule example_failing_ingest)
qed

lemma silent_failing_ingest_run:
  "runPythonScript_ingest (parse_output silent_failing_ingest_env)
     (ingest_run silent_failing_ingest_env)
     = Inr (Result (Some (failed_with_code (Some 2) (js ''partial output''))))"
  by (simp add: silent_failing_ingest_env_def runPythonScript_ingest_def ingest_timeout_ms_def)

lemma example_failing_search:
  "retrieval_fails unparseable_runtime
     (search_failing (the_string (query trip_query)) (requested_limit trip_query))"
  "\<not> spawn_throws (ending
     (search_failing (the_string (query trip_query)) (requested_limit trip_query)))"
  "ending (search_failing (the_string (query trip_query)) (requested_limit trip_query))
     = Closed (Some 1) [] (js ''Traceback (most recent call last): ...'')"
  by (simp_all add: retrieval_fails_def search_failing_def failing_search_def)

theorem error_surfacing_witness:
  "\<not> falsy (query trip_query) \<and> is_string (query trip_query)
   \<and> ending (search_failing (the_string (query trip_query)) (requested_limit trip_query))
       = Closed (Some 1) [] (js ''Traceback (most recent call last): ...'')
   \<and> retrieval_fails unparseable_runtime
         (search_failing (the_string (query trip_query)) (requested_limit trip_query))
   \<and> POST_graph_rag unparseable_runtime search_failing (Some trip_query)
       = json_response 500 [(''error'', JsonStr (js ''Failed to retrieve chat context''))]
   \<and> validSessions [good_session] = [good_session]
   \<and> script_exists failing_ingest_env \<and> fs_failure failing_ingest_env = None
   \<and> elapsed_ms (ingest_run failing_ingest_env) < ingest_timeout_ms
   \<and> ending (ingest_run failing_ingest_env)
       = Closed (Some 1) [] (js ''Traceback (most recent call last): ...'')
   \<and> POST_ingest failing_ingest_env (Inr (Some [good_session]))
       = json_response 500 [(''error'', JsonStr (js ''Failed to ingest chat history'')),
                            (''details'', JsonStr (js ''Traceback (most recent call last): ...''))]
   \<and> script_exists silent_failing_ingest_env \<and> fs_failure silent_failing_ingest_env = None
   \<and> elapsed_ms (ingest_run silent_failing_ingest_env) < ingest_timeout_ms
   \<and> ending (ingest_run silent_failing_ingest_env) = Closed (Some 2) (js ''partial output'') []
   \<and> POST_ingest silent_failing_ingest_env (Inr (Some [good_session]))
       = json_response 500 [(''error'', JsonStr (js ''Failed to ingest chat history'')),
                            (''details'', JsonStr (failed_with_code (Some 2) (js ''partial output'')))]"
proof -
  note q = trip_query_valid
  note f = example_failing_search
  have v: "validSessions [good_session] = [good_session]" by (rule validSessions_good)
  then have v': "validSessions [good_session] \<noteq> []" by (simp del: validSessions.simps)
  have x: "script_exists failing_ingest_env" "fs_failure failing_ingest_env = None"
    by (simp_all add: failing_ingest_env_def)
  have t: "elapsed_ms (ingest_run failing_ingest_env) < ingest_timeout_ms"
    by (simp add: failing_ingest_env_def failing_search_def ingest_timeout_ms_def)
  have e: "ending (ingest_run failing_ingest_env)
       = Closed (Some 1) [] (js ''Traceback (most recent call last): ...'')"
    by (simp add: failing_ingest_env_def failing_search_def)
  have x2: "script_exists silent_failing_ingest_env" "fs_failure silent_failing_ingest_env = None"
    by (simp_all add: silent_failing_ingest_env_def)
  have t2: "elapsed_ms (ingest_run silent_failing_ingest_env) < ingest_timeout_ms"
    by (simp add: silent_failing_ingest_env_def ingest_timeout_ms_def)
  have e2: "ending (ingest_run silent_failing_ingest_env)
       = Closed (Some 2) (js ''partial output'') []"
    by (simp add: silent_failing_ingest_env_def)
  note th1 = error_surfacing
    [where req = trip_query and rt = unparseable_runtime and search = search_failing
       and ss = "[good_session]" and env = failing_ingest_env and code = "Some 1"
       and out = "[]" and err = "js ''Traceback (most recent call last): ...''"]
  note th2 = error_surfacing
    [where req = trip_query and rt = unparseable_runtime and search = search_failing
       and ss = "[good_session]" and env = silent_failing_ingest_env and code = "Some 2"
       and out = "js ''partial output''" and err = "[]"]
  from th1 q f have g: "POST_graph_rag unparseable_runtime search_failing (Some trip_query)
       = json_response 500 [(''error'', JsonStr (js ''Failed to retrieve chat context''))]"
    by simp
  from th1 v' x t e have i: "POST_ingest failing_ingest_env (Inr (Some [good_session]))
       = json_response 500 [(''error'', JsonStr (js ''Failed to ingest chat history'')),
                            (''details'', JsonStr (js ''Traceback (most recent call last): ...''))]"
    by (simp del: validSessions.simps)
  from th2 v' x2 t2 e2 have i2: "POST_ingest silent_failing_ingest_env (Inr (Some [good_session]))
       = json_response 500 [(''error'', JsonStr (js ''Failed to ingest chat history'')),
                            (''details'', JsonStr (failed_with_code (Some 2) (js ''partial output'')))]"
    by (simp del: validSessions.simps split del: if_split)
  from q f(3) f(1) g v x t e i x2 t2 e2 i2 show ?thesis by blast
qed

section \<open>The answering route\<close>

lemma POST_chat_found:
  assumes "conversationMessages req = Some conv"
    and "getPromptById (chat_fs env) (selectedPromptId req) file = (Some p, file1)"
  shows "POST_chat env (Some req) file =
           (respond (ollama env (ollamaRequestBody req conv (chat_system_prompt env req conv p))), file1)"
  using assms by (simp add: POST_chat_def)

lemma search_fails_prompt:
  assumes "search_fails rt run"
  shows "enhancedSystemPrompt base (chat_search rt run) = base @ no_context_note
       \<or> enhancedSystemPrompt base (chat_search rt run) = base @ retrieval_failed_note"
  using assms
  by (cases "ending run")
     (auto simp: search_fails_def chat_search_def enhancedSystemPrompt_def script_error_def
           split: sum.splits)

lemma example_getPrompt:
  "getPromptById example_fs (js ''default'') Missing
     = (Some (defaultPrompt example_fs), Stored [defaultPrompt example_fs])"
  by (simp add: getPromptById_def readPrompts_def defaultPrompt_def example_fs_def)

lemma hello_conversation:
  "conversationMessages (hello_request g) = Some [hello_turn]"
  by (simp add: conversationMessages_def hello_request_def hello_turn_def)

lemma hello_selected: "selectedPromptId (hello_request g) = js ''default''"
  by (simp add: selectedPromptId_def hello_request_def)

lemma example_POST_chat:
  "POST_chat (example_chat_env model) (Some (hello_request g)) Missing =
     (respond (model (ollamaRequestBody (hello_request g) [hello_turn]
        (chat_system_prompt (example_chat_env model) (hello_request g) [hello_turn]
           (defaultPrompt example_fs)))),
      Stored [defaultPrompt example_fs])"
proof -
  have "getPromptById (chat_fs (example_chat_env model)) (selectedPromptId (hello_request g)) Missing
          = (Some (defaultPrompt example_fs), Stored [defaultPrompt example_fs])"
    by (simp add: hello_selected example_getPrompt example_chat_env_def)
  from POST_chat_found [OF hello_conversation this]
  show ?thesis by (simp add: example_chat_env_def)
qed

lemma failing_search_fails: "search_fails unparseable_runtime failing_search"
  by (simp add: search_fails_def failing_search_def)

text \<open>
  Claim C1, as amended. When retrieval is enabled and the retrieval step fails (the
  search process does not start, errors, exits with a non-zero code or prints output
  that does not parse), the request does not fail for that reason: the route calls the
  language model with the stored system prompt followed by a parenthesised note and no
  retrieved context, and the response of the route is exactly what that call yields. The
  note is part of the system prompt sent to the model; the route adds nothing to the
  response.
\<close>

theorem retrieval_failure_absorbed:
  assumes "req_graphRAG req = Some True"
    and "conversationMessages req = Some conv"
    and "getPromptById (chat_fs env) (selectedPromptId req) file = (Some p, file1)"
    and "search_fails (chat_runtime env) (search_run env (lastUserMessage conv))"
  shows "\<exists>note. (note = no_context_note \<or> note = retrieval_failed_note)
           \<and> POST_chat env (Some req) file =
               (respond (ollama env (ollamaRequestBody req conv (prompt_content p @ note))), file1)"
proof -
  from search_fails_prompt [OF assms(4), of "prompt_content p"] assms(1)
  have "chat_system_prompt env req conv p = prompt_content p @ no_context_note
      \<or> chat_system_prompt env req conv p = prompt_content p @ retrieval_failed_note"
    by (simp add: chat_system_prompt_def)
  then show ?thesis
    using POST_chat_found [OF assms(2) assms(3)] by auto
qed

theorem retrieval_failure_absorbed_witness:
  "req_graphRAG (hello_request True) = Some True
   \<and> conversationMessages (hello_request True) = Some [hello_turn]
   \<and> getPromptById (chat_fs (example_chat_env constant_model))
        (selectedPromptId (hello_request True)) Missing
       = (Some (defaultPrompt example_fs), Stored [defaultPrompt example_fs])
   \<and> search_fails (chat_runtime (example_chat_env constant_model))
        (search_run (example_chat_env constant_model) (lastUserMessage [hello_turn]))
   \<and> (\<exists>note. (note = no_context_note \<or> note = retrieval_failed_note)
         \<and> POST_chat (example_chat_env constant_model) (Some (hello_request True)) Missing =
             (respond (ollama (example_chat_env constant_model)
                (ollamaRequestBody (hello_request True) [hello_turn]
                   (prompt_content (defaultPrompt example_fs) @ note))),
              Stored [defaultPrompt example_fs]))"
proof -
  have 1: "req_graphRAG (hello_request True) = Some True"
    by (simp add: hello_request_def)
  have 2: "conversationMessages (hello_request True) = Some [hello_turn]"
    by (rule hello_conversation)
  have 3: "getPromptById (chat_fs (example_chat_env constant_model))
        (selectedPromptId (hello_request True)) Missing
       = (Some (defaultPrompt example_fs), Stored [defaultPrompt example_fs])"
    by (simp add: hello_selected example_getPrompt example_chat_env_def)
  have 4: "search_fails (chat_runtime (example_chat_env constant_model))
        (search_run (example_chat_env constant_model) (lastUserMessage [hello_turn]))"
    by (simp add: example_chat_env_def failing_search_fails)
  from retrieval_failure_absorbed [OF 1 2 3 4] 1 2 3 4 show ?thesis by blast
qed

text \<open>
  Claim C1 as stated fails: with a failing search and a model that answers \<open>Hi\<close>, the
  response is status 200 with the stream \<open>Hi\<close> and nothing else, the same response as
  with retrieval switched off. No flag or note marks the degradation in the response.
\<close>

theorem retrieval_failure_absorbed_counterexample:
  "search_fails (chat_runtime (example_chat_env constant_model))
        (search_run (example_chat_env constant_model) (lastUserMessage [hello_turn]))
   \<and> fst (POST_chat (example_chat_env constant_model) (Some (hello_request True)) Missing)
       = \<lparr>chat_status = 200, chat_body = Streamed [js ''Hi''] StreamDone\<rparr>
   \<and> fst (POST_chat (example_chat_env constant_model) (Some (hello_request False)) Missing)
       = \<lparr>chat_status = 200, chat_body = Streamed [js ''Hi''] StreamDone\<rparr>"
proof -
  have "search_fails (chat_runtime (example_chat_env constant_model))
        (search_run (example_chat_env constant_model) (lastUserMessage [hello_turn]))"
    by (simp add: example_chat_env_def failing_search_fails)
  then show ?thesis
    by (simp add: example_POST_chat constant_model_def)
qed

text \<open>
  Claim C6, as amended. When the call to the language model fails before a response
  body is available (the fetch rejects, or the HTTP status is not ok), the route answers
  with status 500 and a fixed error text, and no answer text. When an ok response
  arrives, the route answers 200 and forwards the chunks as they are read, so a read
  that fails later ends a stream whose earlier chunks were already forwarded.
\<close>

theorem model_failure_surfaced:
  assumes "conversationMessages req = Some conv"
    and "getPromptById (chat_fs env) (selectedPromptId req) file = (Some p, file1)"
  shows "(ollama env (ollamaRequestBody req conv (chat_system_prompt env req conv p)) = FetchRejected
            \<longrightarrow> fst (POST_chat env (Some req) file)
                 = \<lparr>chat_status = 500, chat_body = Text (js ''Internal server error'')\<rparr>)
       \<and> (ollama env (ollamaRequestBody req conv (chat_system_prompt env req conv p)) = HttpNotOk statusText
            \<longrightarrow> fst (POST_chat env (Some req) file)
                 = \<lparr>chat_status = 500, chat_body = Text (js ''Failed to get response from Ollama'')\<rparr>)
       \<and> (ollama env (ollamaRequestBody req conv (chat_system_prompt env req conv p)) = HttpOk chunks e
            \<longrightarrow> fst (POST_chat env (Some req) file)
                 = \<lparr>chat_status = 200, chat_body = Streamed chunks e\<rparr>)"
  using POST_chat_found [OF assms] by simp

theorem model_failure_surfaced_witness:
  "conversationMessages (hello_request False) = Some [hello_turn]
   \<and> getPromptById (chat_fs (example_chat_env overloaded_model))
        (selectedPromptId (hello_request False)) Missing
       = (Some (defaultPrompt example_fs), Stored [defaultPrompt example_fs])
   \<and> ollama (example_chat_env overloaded_model)
        (ollamaRequestBody (hello_request False) [hello_turn]
           (chat_system_prompt (example_chat_env overloaded_model) (hello_request False)
              [hello_turn] (defaultPrompt example_fs)))
       = HttpNotOk (js ''Service Unavailable'')
   \<and> fst (POST_chat (example_chat_env overloaded_model) (Some (hello_request False)) Missing)
       = \<lparr>chat_status = 500, chat_body = Text (js ''Failed to get response from Ollama'')\<rparr>
   \<and> getPromptById (chat_fs (example_chat_env unreachable_model))
        (selectedPromptId (hello_request False)) Missing
       = (Some (defaultPrompt example_fs), Stored [defaultPrompt example_fs])
   \<and> ollama (example_chat_env unreachable_model)
        (ollamaRequestBody (hello_request False) [hello_turn]
           (chat_system_prompt (example_chat_env unreachable_model) (hello_request False)
              [hello_turn] (defaultPrompt example_fs)))
       = FetchRejected
   \<and> fst (POST_chat (example_chat_env unreachable_model) (Some (hello_request False)) Missing)
       = \<lparr>chat_status = 500, chat_body = Text (js ''Internal server error'')\<rparr>"
proof -
  have c: "conversationMessages (hello_request False) = Some [hello_turn]"
    by (rule hello_conversation)
  have g1: "getPromptById (chat_fs (example_chat_env overloaded_model))
        (selectedPromptId (hello_request False)) Missing
       = (Some (defaultPrompt example_fs), Stored [defaultPrompt example_fs])"
    by (simp add: hello_selected example_getPrompt example_chat_env_def)
  have g2: "getPromptById (chat_fs (example_chat_env unreachable_model))
        (selectedPromptId (hello_request False)) Missing
       = (Some (defaultPrompt example_fs), Stored [defaultPrompt example_fs])"
    by (simp add: hello_selected example_getPrompt example_chat_env_def)
  have o1: "ollama (example_chat_env overloaded_model)
        (ollamaRequestBody (hello_request False) [hello_turn]
           (chat_system_prompt (example_chat_env overloaded_model) (hello_request False)
              [hello_turn] (defaultPrompt example_fs)))
       = HttpNotOk (js ''Service Unavailable'')"
    by (simp add: example_chat_env_def overloaded_model_def)
  have o2: "ollama (example_chat_env unreachable_model)
        (ollamaRequestBody (hello_request False) [hello_turn]
           (chat_system_prompt (example_chat_env unreachable_model) (hello_request False)
              [hello_turn] (defaultPrompt example_fs)))
       = FetchRejected"
    by (simp add: example_chat_env_def unreachable_model_def)
  from model_failure_surfaced [OF c g1, of "js ''Service Unavailable''"] o1
  have r1: "fst (POST_chat (example_chat_env overloaded_model) (Some (hello_request False)) Missing)
       = \<lparr>chat_status = 500, chat_body = Text (js ''Failed to get response from Ollama'')\<rparr>"
    by blast
  from model_failure_surfaced [OF c g2] o2
  have r2: "fst (POST_chat (example_chat_env unreachable_model) (Some (hello_request False)) Missing)
       = \<lparr>chat_status = 500, chat_body = Text (js ''Internal server error'')\<rparr>"
    by blast
  from c g1 o1 r1 g2 o2 r2 show ?thesis by blast
qed

text \<open>
  Claim C6 as stated fails: a model call that delivers one chunk and then breaks gives a
  response of status 200 carrying that partial text, not an error in place of it.
\<close>

theorem model_failure_surfaced_counterexample:
  "fst (POST_chat (example_chat_env breaking_model) (Some (hello_request False)) Missing)
     = \<lparr>chat_status = 200, chat_body = Streamed [js ''The capital of''] StreamFailed\<rparr>"
  by (simp add: example_POST_chat breaking_model_def)

lemma slice_but_last_snoc: "slice_but_last (xs @ [x]) = xs"
  by (simp add: slice_but_last_def)

lemma sendMessage_history:
  "sendMessage messages new_id input isLoading = Some r \<Longrightarrow>
   br_chat_history r = map role_content messages"
  by (auto simp: sendMessage_def Let_def slice_but_last_snoc split: if_splits)

lemma length_slice_last: "length (slice_last n xs) = min n (length xs)"
  by (simp add: slice_last_def min_def)

lemma handleSubmit_history:
  "handleSubmit messages input isLoading = Some r \<Longrightarrow>
   br_chat_history r = map role_content (slice_last 4 messages)
   \<and> length (br_chat_history r) = min 4 (length messages)"
  by (auto simp: handleSubmit_def length_slice_last split: if_splits)

text \<open>
  Claim C8, as amended. The chat interface sends the last four messages as history
  (\<open>slice(-4)\<close>); \<open>sendMessage\<close> of \<open>Chat.tsx\<close> sends every earlier message. The
  answering route, given a conversation, sends the system message followed by all of the
  conversation's messages to the language model, without any cap of its own.
\<close>

theorem history_in_prompt:
  "(handleSubmit messages input isLoading = Some r \<longrightarrow>
      br_chat_history r = map role_content (slice_last 4 messages)
      \<and> length (br_chat_history r) = min 4 (length messages))
   \<and> (sendMessage messages new_id input isLoading = Some r' \<longrightarrow>
      br_chat_history r' = map role_content messages)
   \<and> (req_messages req = Some conv
        \<and> getPromptById (chat_fs env) (selectedPromptId req) file = (Some p, file1) \<longrightarrow>
      POST_chat env (Some req) file =
        (respond (ollama env (ollamaRequestBody req conv (chat_system_prompt env req conv p))), file1)
      \<and> o_messages (ollamaRequestBody req conv (chat_system_prompt env req conv p))
          = \<lparr>cm_role = js ''system'', cm_content = chat_system_prompt env req conv p\<rparr> # conv)"
proof (intro conjI impI)
  assume h: "handleSubmit messages input isLoading = Some r"
  from handleSubmit_history [OF h]
  show "br_chat_history r = map role_content (slice_last 4 messages)"
    and "length (br_chat_history r) = min 4 (length messages)"
    by blast+
next
  assume "sendMessage messages new_id input isLoading = Some r'"
  then show "br_chat_history r' = map role_content messages" by (rule sendMessage_history)
next
  assume a: "req_messages req = Some conv
        \<and> getPromptById (chat_fs env) (selectedPromptId req) file = (Some p, file1)"
  then have c: "conversationMessages req = Some conv" by (simp add: conversationMessages_def)
  from a have g: "getPromptById (chat_fs env) (selectedPromptId req) file = (Some p, file1)"
    by blast
  show "POST_chat env (Some req) file =
        (respond (ollama env (ollamaRequestBody req conv (chat_system_prompt env req conv p))), file1)"
    by (rule POST_chat_found [OF c g])
  from a show "o_messages (ollamaRequestBody req conv (chat_system_prompt env req conv p))
          = \<lparr>cm_role = js ''system'', cm_content = chat_system_prompt env req conv p\<rparr> # conv"
    by (simp add: ollamaRequestBody_def ollamaMessages_def)
qed

theorem history_in_prompt_witness:
  "handleSubmit (replicate 6 example_ui_message) (js ''next'') False
     = Some \<lparr>br_query = js ''next'',
             br_chat_history = replicate 4 (role_content example_ui_message)\<rparr>
   \<and> br_chat_history \<lparr>br_query = js ''next'',
             br_chat_history = replicate 4 (role_content example_ui_message)\<rparr>
       = map role_content (slice_last 4 (replicate 6 example_ui_message))
   \<and> sendMessage (replicate 6 example_ui_message) (js ''user-7'') (js ''next'') False
     = Some \<lparr>br_query = js ''next'',
             br_chat_history = replicate 6 (role_content example_ui_message)\<rparr>
   \<and> req_messages (conversation_request (replicate 6 hello_turn)) = Some (replicate 6 hello_turn)
   \<and> getPromptById (chat_fs (example_chat_env constant_model))
        (selectedPromptId (conversation_request (replicate 6 hello_turn))) Missing
       = (Some (defaultPrompt example_fs), Stored [defaultPrompt example_fs])
   \<and> o_messages (ollamaRequestBody (conversation_request (replicate 6 hello_turn))
          (replicate 6 hello_turn)
          (chat_system_prompt (example_chat_env constant_model)
             (conversation_request (replicate 6 hello_turn)) (replicate 6 hello_turn)
             (defaultPrompt example_fs)))
       = \<lparr>cm_role = js ''system'',
          cm_content = chat_system_prompt (example_chat_env constant_model)
             (conversation_request (replicate 6 hello_turn)) (replicate 6 hello_turn)
             (defaultPrompt example_fs)\<rparr> # replicate 6 hello_turn"
proof -
  have t: "trim (js ''next'') = js ''next''"
    by (simp add: trim_def js_def is_js_whitespace_def)
  have h: "handleSubmit (replicate 6 example_ui_message) (js ''next'') False
     = Some \<lparr>br_query = js ''next'',
             br_chat_history = replicate 4 (role_content example_ui_message)\<rparr>"
    by (simp add: handleSubmit_def t slice_last_def)
  have s: "sendMessage (replicate 6 example_ui_message) (js ''user-7'') (js ''next'') False
     = Some \<lparr>br_query = js ''next'',
             br_chat_history = replicate 6 (role_content example_ui_message)\<rparr>"
    by (simp add: sendMessage_def t Let_def slice_but_last_def role_content_def)
  have m: "req_messages (conversation_request (replicate 6 hello_turn)) = Some (replicate 6 hello_turn)"
    by (simp add: conversation_request_def)
  have g: "getPromptById (chat_fs (example_chat_env constant_model))
        (selectedPromptId (conversation_request (replicate 6 hello_turn))) Missing
       = (Some (defaultPrompt example_fs), Stored [defaultPrompt example_fs])"
    by (simp add: selectedPromptId_def conversation_request_def example_getPrompt
        example_chat_env_def)
  from history_in_prompt
    [of "replicate 6 example_ui_message" "js ''next''" False
        "\<lparr>br_query = js ''next'', br_chat_history = replicate 4 (role_content example_ui_message)\<rparr>"
        "js ''user-7''"
        "\<lparr>br_query = js ''next'', br_chat_history = replicate 6 (role_content example_ui_message)\<rparr>"
        "conversation_request (replicate 6 hello_turn)" "replicate 6 hello_turn"
        "example_chat_env constant_model" Missing "defaultPrompt example_fs"
        "Stored [defaultPrompt example_fs]"]
    h s m g
  show ?thesis by blast
qed

text \<open>
  Claim C8 as stated fails: no constant bounds the history that \<open>sendMessage\<close> supplies,
  and none bounds the messages the route puts into the request to the language model.
\<close>

theorem history_in_prompt_counterexample:
  "\<not> (\<exists>K. \<forall>messages.
        length (br_chat_history (the (sendMessage messages (js ''user-2'') (js ''next'') False))) \<le> K)
   \<and> \<not> (\<exists>K. \<forall>conv.
        length (o_messages (ollamaRequestBody (conversation_request conv) conv (js ''system prompt'')))
          \<le> K)"
proof (intro conjI notI)
  assume "\<exists>K. \<forall>messages.
        length (br_chat_history (the (sendMessage messages (js ''user-2'') (js ''next'') False))) \<le> K"
  then obtain K where k: "\<And>messages.
        length (br_chat_history (the (sendMessage messages (js ''user-2'') (js ''next'') False))) \<le> K"
    by blast
  have t: "trim (js ''next'') \<noteq> []"
    by (simp add: trim_def js_def is_js_whitespace_def)
  have "sendMessage (replicate (Suc K) example_ui_message) (js ''user-2'') (js ''next'') False \<noteq> None"
    using t by (simp add: sendMessage_def Let_def)
  then obtain r where r: "sendMessage (replicate (Suc K) example_ui_message) (js ''user-2'') (js ''next'') False = Some r"
    by blast
  from sendMessage_history [OF r] have "length (br_chat_history r) = Suc K" by simp
  with k [of "replicate (Suc K) example_ui_message"] r show False by simp
next
  assume "\<exists>K. \<forall>conv.
        length (o_messages (ollamaRequestBody (conversation_request conv) conv (js ''system prompt'')))
          \<le> K"
  then obtain K where k: "\<And>conv.
        length (o_messages (ollamaRequestBody (conversation_request conv) conv (js ''system prompt'')))
          \<le> K" by blast
  have "length (o_messages (ollamaRequestBody (conversation_request (replicate K hello_turn))
          (replicate K hello_turn) (js ''system prompt''))) = Suc K"
    by (simp add: ollamaRequestBody_def ollamaMessages_def conversation_request_def)
  with k [of "replicate K hello_turn"] show False by simp
qed

end
